theory Spec2Isabelle
  imports Complex_Main "HOL-Library.Log_Nat"
begin

section \<open>JavaScript values\<close>

text \<open>
  The dashboard scripts (\<^verbatim>\<open>static/js/main.js\<close>, \<^verbatim>\<open>static/js/charts.js\<close>) work on
  values decoded from JSON responses. A Number is modelled by its mathematical value:
  \<open>Fin v\<close> stands for the finite Number of value \<open>v\<close> (both zeros are \<open>Fin 0\<close>; no
  operation used by the scripts tells them apart). The Number values proper are the
  \<open>Fin v\<close> with \<open>toDouble v = Fin v\<close>; the functions below are defined on all rationals.
  Strings are lists of code units; \<open>char\<close> covers the code units below 256.
  \<open>Func name n\<close> is a built-in function object (\<^verbatim>\<open>Array.prototype.values\<close>,
  \<^verbatim>\<open>String.prototype.link\<close>) of the given \<^verbatim>\<open>length\<close>: property reads on arrays and
  strings can return one.
\<close>

datatype error = TypeError | RangeError

datatype jsnum = NaN | PInf | NInf | Fin rat

datatype jsval =
    Undefined
  | Null
  | Bool bool
  | Num jsnum
  | Str string
  | Arr "jsval list"
  | Obj "(string \<times> jsval) list"
  | Func string nat

subsection \<open>Decimal digits\<close>

definition isDigit :: "char \<Rightarrow> bool" where
  "isDigit c = (c \<in> set ''0123456789'')"

definition digitChar :: "int \<Rightarrow> char" where
  "digitChar d = ''0123456789'' ! nat d"

definition digitVal :: "char \<Rightarrow> int" where
  "digitVal c = of_char c - 48"

function digitString :: "int \<Rightarrow> string" where
  "digitString n = (if n < 10 then [digitChar n] else digitString (n div 10) @ [digitChar (n mod 10)])"
  by pat_completeness auto
termination
  by (relation "measure nat") auto

declare digitString.simps [simp del]

definition decValue :: "string \<Rightarrow> int" where
  "decValue ds = foldl (\<lambda>a c. 10 * a + digitVal c) 0 ds"

definition pow2 :: "int \<Rightarrow> rat" where
  "pow2 e = (if 0 \<le> e then 2 ^ nat e else 1 / 2 ^ nat (- e))"

definition pow10 :: "int \<Rightarrow> rat" where
  "pow10 e = (if 0 \<le> e then 10 ^ nat e else 1 / 10 ^ nat (- e))"

subsection \<open>Rounding a real value to a Number\<close>

text \<open>
  \<open>toDouble x\<close> is the Number for the mathematical value \<open>x\<close>: the nearest IEEE 754
  binary64 value, ties to even, an infinity from \<open>2^1024 - 2^970\<close> on. \<open>ilog2 a\<close> is
  \<open>\<lfloor>log\<^sub>2 a\<rfloor>\<close> for \<open>a > 0\<close>.
\<close>

definition ilog2 :: "rat \<Rightarrow> int" where
  "ilog2 a = (case quotient_of a of (n, d) \<Rightarrow>
     (let k = bitlen n - bitlen d in if pow2 k \<le> a then k else k - 1))"

definition roundHalfEven :: "rat \<Rightarrow> int" where
  "roundHalfEven q = (let f = \<lfloor>q\<rfloor>; r = q - of_int f
     in if r < 1 / 2 then f else if 1 / 2 < r then f + 1 else if even f then f else f + 1)"

definition toDouble :: "rat \<Rightarrow> jsnum" where
  "toDouble x = (if x = 0 then Fin 0 else
     (let a = \<bar>x\<bar>;
          e = max (ilog2 a - 52) (- 1074);
          y = of_int (roundHalfEven (a / pow2 e)) * pow2 e
      in if pow2 1024 \<le> y then (if x < 0 then NInf else PInf)
         else Fin (if x < 0 then - y else y)))"

definition negate :: "jsnum \<Rightarrow> jsnum" where
  "negate n = (case n of NaN \<Rightarrow> NaN | PInf \<Rightarrow> NInf | NInf \<Rightarrow> PInf | Fin v \<Rightarrow> Fin (- v))"

subsection \<open>Number to string\<close>

text \<open>
  \<^verbatim>\<open>Number::toString\<close>: the shortest decimal digit string \<open>s\<close> (of \<open>k\<close> digits, scaled
  by \<open>10^(n-k)\<close>) that reads back as the same Number; among several, the one nearest to
  the value. \<open>decExp x\<close> is the \<open>n\<close> with \<open>10^(n-1) \<le> x < 10^n\<close>. Seventeen digits
  always suffice for a Number, so the last equation of \<open>shortest\<close> is never reached
  for one.
\<close>

definition decExp :: "rat \<Rightarrow> int" where
  "decExp x = (if 1 \<le> x then int (length (digitString \<lfloor>x\<rfloor>))
               else 1 - int (length (digitString (\<lceil>1 / x\<rceil> - 1))))"

fun shortest :: "rat \<Rightarrow> int \<Rightarrow> nat \<Rightarrow> nat \<Rightarrow> int \<times> nat \<times> int" where
  "shortest x n0 0 k = (\<lfloor>x / pow10 (n0 - int k)\<rfloor>, k, n0)"
| "shortest x n0 (Suc fuel) k =
     (let sc = pow10 (n0 - int k);
          lo = \<lfloor>x / sc\<rfloor>;
          hi = lo + 1;
          oklo = (toDouble (of_int lo * sc) = Fin x);
          okhi = (toDouble (of_int hi * sc) = Fin x);
          dlo = x - of_int lo * sc;
          dhi = of_int hi * sc - x;
          s = (if oklo \<and> okhi then (if dlo < dhi \<or> (dlo = dhi \<and> even lo) then lo else hi)
               else if oklo then lo else hi)
      in if oklo \<or> okhi
         then (if s = 10 ^ k then (10 ^ (k - 1), k, n0 + 1) else (s, k, n0))
         else shortest x n0 fuel (Suc k))"

definition numberToStringPos :: "rat \<Rightarrow> string" where
  "numberToStringPos x = (case shortest x (decExp x) 17 1 of (s, k, n) \<Rightarrow>
     (let ds = digitString s in
      if int k \<le> n \<and> n \<le> 21 then ds @ replicate (nat (n - int k)) CHR ''0''
      else if 0 < n \<and> n \<le> 21 then take (nat n) ds @ ''.'' @ drop (nat n) ds
      else if - 6 < n \<and> n \<le> 0 then ''0.'' @ replicate (nat (- n)) CHR ''0'' @ ds
      else (let e = n - 1; es = (if 0 \<le> e then ''+'' else ''-'') @ digitString \<bar>e\<bar>
            in if k = 1 then ds @ ''e'' @ es
               else take 1 ds @ ''.'' @ drop 1 ds @ ''e'' @ es)))"

definition numberToString :: "jsnum \<Rightarrow> string" where
  "numberToString x = (case x of
       NaN \<Rightarrow> ''NaN''
     | PInf \<Rightarrow> ''Infinity''
     | NInf \<Rightarrow> ''-Infinity''
     | Fin v \<Rightarrow> if v = 0 then ''0''
                else if v < 0 then ''-'' @ numberToStringPos (- v)
                else numberToStringPos v)"

subsection \<open>Number.prototype.toFixed\<close>

text \<open>
  \<open>fixedDigits a f\<close>: the integer \<open>n\<close> with \<open>n / 10^f\<close> nearest to \<open>a\<close> (the larger one
  of two), written with \<open>f\<close> digits after the point. \<^verbatim>\<open>toFixed\<close> throws a RangeError
  for a digit count outside 0..100 and falls back to \<^verbatim>\<open>Number::toString\<close> from
  \<open>10^21\<close> on.
\<close>

definition fixedDigits :: "rat \<Rightarrow> int \<Rightarrow> string" where
  "fixedDigits a f =
     (let n = \<lfloor>a * 10 ^ nat f + 1 / 2\<rfloor>;
          m = digitString n
      in if f = 0 then m
         else (let m' = (if length m \<le> nat f
                         then replicate (nat f + 1 - length m) CHR ''0'' @ m else m);
                   k = length m'
               in take (k - nat f) m' @ ''.'' @ drop (k - nat f) m'))"

definition toFixed :: "jsnum \<Rightarrow> int \<Rightarrow> error + string" where
  "toFixed x f =
     (if f < 0 \<or> 100 < f then Inl RangeError
      else case x of
          NaN \<Rightarrow> Inr ''NaN''
        | PInf \<Rightarrow> Inr ''Infinity''
        | NInf \<Rightarrow> Inr ''-Infinity''
        | Fin v \<Rightarrow> Inr ((if v < 0 then ''-'' else '''') @
            (if pow10 21 \<le> \<bar>v\<bar> then numberToString (toDouble \<bar>v\<bar>)
             else fixedDigits \<bar>v\<bar> f)))"

subsection \<open>Reading numbers from strings\<close>

text \<open>
  \<^verbatim>\<open>parseFloat\<close> skips leading white space and reads the longest prefix that is a
  \<^verbatim>\<open>StrDecimalLiteral\<close> (an optional sign, then \<^verbatim>\<open>Infinity\<close> or decimal digits with an
  optional fraction and exponent); with no such prefix the result is NaN.
  \<^verbatim>\<open>StringToNumber\<close> (used when a non-string value is coerced) wants the whole trimmed
  string to be a literal, reads the empty string as 0 and knows the \<^verbatim>\<open>0x\<close>, \<^verbatim>\<open>0o\<close>,
  \<^verbatim>\<open>0b\<close> forms.
\<close>

definition isWhiteSpace :: "char \<Rightarrow> bool" where
  "isWhiteSpace c = (c \<in> set [CHR 0x09, CHR 0x0A, CHR 0x0B, CHR 0x0C, CHR 0x0D, CHR 0x20, CHR 0xA0])"

definition trimStart :: "string \<Rightarrow> string" where
  "trimStart s = dropWhile isWhiteSpace s"

definition trim :: "string \<Rightarrow> string" where
  "trim s = rev (dropWhile isWhiteSpace (rev (dropWhile isWhiteSpace s)))"

definition signedInteger :: "string \<Rightarrow> (int \<times> string) option" where
  "signedInteger s =
     (case (case s of
              [] \<Rightarrow> (1, s)
            | c # r \<Rightarrow> if c = CHR ''+'' then (1, r) else if c = CHR ''-'' then (- 1, r) else (1, s))
      of (sg, r) \<Rightarrow>
        if takeWhile isDigit r = [] then None
        else Some (sg * decValue (takeWhile isDigit r), dropWhile isDigit r))"

definition exponentPart :: "string \<Rightarrow> int \<times> string" where
  "exponentPart s =
     (case s of
        [] \<Rightarrow> (0, s)
      | c # r \<Rightarrow>
          if c = CHR ''e'' \<or> c = CHR ''E''
          then (case signedInteger r of None \<Rightarrow> (0, s) | Some er \<Rightarrow> er)
          else (0, s))"

definition strUnsignedDecimalLiteral :: "string \<Rightarrow> (jsnum \<times> string) option" where
  "strUnsignedDecimalLiteral s =
     (if take 8 s = ''Infinity'' then Some (PInf, drop 8 s)
      else (let ip = takeWhile isDigit s; r1 = dropWhile isDigit s
            in case r1 of
                 [] \<Rightarrow> if ip = [] then None else Some (toDouble (of_int (decValue ip)), [])
               | c # r2 \<Rightarrow>
                   if c = CHR ''.''
                   then (let fp = takeWhile isDigit r2
                         in if ip = [] \<and> fp = [] then None
                            else (case exponentPart (dropWhile isDigit r2) of (e, r4) \<Rightarrow>
                              Some (toDouble (of_int (decValue (ip @ fp)) * pow10 (e - int (length fp))), r4)))
                   else if ip = [] then None
                   else (case exponentPart r1 of (e, r4) \<Rightarrow>
                           Some (toDouble (of_int (decValue ip) * pow10 e), r4))))"

definition strDecimalLiteral :: "string \<Rightarrow> (jsnum \<times> string) option" where
  "strDecimalLiteral s =
     (case s of
        [] \<Rightarrow> None
      | c # r \<Rightarrow>
          if c = CHR ''+'' then strUnsignedDecimalLiteral r
          else if c = CHR ''-'' then map_option (\<lambda>(n, r'). (negate n, r')) (strUnsignedDecimalLiteral r)
          else strUnsignedDecimalLiteral s)"

definition parseFloat :: "string \<Rightarrow> jsnum" where
  "parseFloat s = (case strDecimalLiteral (trimStart s) of None \<Rightarrow> NaN | Some (n, r) \<Rightarrow> n)"

definition radixDigit :: "char \<Rightarrow> int" where
  "radixDigit c =
     (if isDigit c then digitVal c
      else if c \<in> set ''abcdef'' then of_char c - 87
      else if c \<in> set ''ABCDEF'' then of_char c - 55
      else 99)"

definition nonDecimalIntegerLiteral :: "string \<Rightarrow> jsnum" where
  "nonDecimalIntegerLiteral s =
     (case s of
        z # x # ds \<Rightarrow>
          (let radix = (if x \<in> set ''xX'' then 16 else if x \<in> set ''oO'' then 8
                        else if x \<in> set ''bB'' then 2 else 0)
           in if z = CHR ''0'' \<and> radix \<noteq> 0 \<and> ds \<noteq> [] \<and> list_all (\<lambda>d. radixDigit d < radix) ds
              then toDouble (of_int (foldl (\<lambda>a d. radix * a + radixDigit d) 0 ds))
              else NaN)
      | _ \<Rightarrow> NaN)"

definition StringToNumber :: "string \<Rightarrow> jsnum" where
  "StringToNumber s =
     (let t = trim s
      in if t = [] then Fin 0
         else (case strDecimalLiteral t of
                 Some (n, []) \<Rightarrow> n
               | _ \<Rightarrow> nonDecimalIntegerLiteral t))"

subsection \<open>Coercions\<close>

text \<open>
  \<^verbatim>\<open>ToString\<close> and \<^verbatim>\<open>ToNumber\<close> on decoded JSON. An array joins its elements with
  commas (null and undefined elements as the empty string). A plain object converts
  through \<^verbatim>\<open>Object.prototype.toString\<close>, unless it has an own property \<^verbatim>\<open>toString\<close>: a
  decoded value is never callable, and conversion to a primitive throws a TypeError.
\<close>

definition ToBoolean :: "jsval \<Rightarrow> bool" where
  "ToBoolean v = (case v of
       Undefined \<Rightarrow> False
     | Null \<Rightarrow> False
     | Bool b \<Rightarrow> b
     | Num n \<Rightarrow> n \<noteq> NaN \<and> n \<noteq> Fin 0
     | Str s \<Rightarrow> s \<noteq> []
     | _ \<Rightarrow> True)"

fun ToString :: "jsval \<Rightarrow> error + string"
  and join :: "jsval list \<Rightarrow> error + string" where
  "ToString Undefined = Inr ''undefined''"
| "ToString Null = Inr ''null''"
| "ToString (Bool b) = Inr (if b then ''true'' else ''false'')"
| "ToString (Num n) = Inr (numberToString n)"
| "ToString (Str s) = Inr s"
| "ToString (Arr xs) = join xs"
| "ToString (Obj ps) =
     (if ''toString'' \<in> fst ` set ps then Inl TypeError else Inr ''[object Object]'')"
| "ToString (Func name n) = Inr (''function '' @ name @ ''() { [native code] }'')"
| "join [] = Inr []"
| "join (x # xs) =
     (case (if x = Undefined \<or> x = Null then Inr [] else ToString x) of
        Inl e \<Rightarrow> Inl e
      | Inr s \<Rightarrow> if xs = [] then Inr s
                 else (case join xs of Inl e \<Rightarrow> Inl e | Inr r \<Rightarrow> Inr (s @ '','' @ r)))"

definition ToNumber :: "jsval \<Rightarrow> error + jsnum" where
  "ToNumber v = (case v of
       Undefined \<Rightarrow> Inr NaN
     | Null \<Rightarrow> Inr (Fin 0)
     | Bool b \<Rightarrow> Inr (Fin (if b then 1 else 0))
     | Num n \<Rightarrow> Inr n
     | Str s \<Rightarrow> Inr (StringToNumber s)
     | _ \<Rightarrow> (case ToString v of Inl e \<Rightarrow> Inl e | Inr s \<Rightarrow> Inr (StringToNumber s)))"

definition isNaN :: "jsval \<Rightarrow> error + bool" where
  "isNaN v = (case ToNumber v of Inl e \<Rightarrow> Inl e | Inr n \<Rightarrow> Inr (n = NaN))"

definition geZero :: "jsnum \<Rightarrow> bool" where
  "geZero n = (case n of NaN \<Rightarrow> False | PInf \<Rightarrow> True | NInf \<Rightarrow> False | Fin v \<Rightarrow> 0 \<le> v)"

subsection \<open>String methods\<close>

text \<open>
  \<^verbatim>\<open>indexOf\<close> gives the index of the first occurrence, or -1; \<^verbatim>\<open>replace\<close> with a string
  pattern replaces the first occurrence only; \<^verbatim>\<open>slice(0, n)\<close> keeps the first \<open>n\<close>
  code units.
\<close>

fun indexOf :: "string \<Rightarrow> string \<Rightarrow> int" where
  "indexOf [] pat = (if pat = [] then 0 else - 1)"
| "indexOf (c # s) pat =
     (if take (length pat) (c # s) = pat then 0
      else (let i = indexOf s pat in if i < 0 then - 1 else i + 1))"

definition replaceFirst :: "string \<Rightarrow> string \<Rightarrow> string \<Rightarrow> string" where
  "replaceFirst pat rep s =
     (let i = indexOf s pat
      in if i < 0 then s else take (nat i) s @ rep @ drop (nat i + length pat) s)"

definition startsWith :: "string \<Rightarrow> string \<Rightarrow> bool" where
  "startsWith s pat = (take (length pat) s = pat)"

section \<open>The value formatter\<close>

text \<open>
  \<^verbatim>\<open>formatSignedValue\<close> of \<^verbatim>\<open>loadPerformanceDataAndRenderCharts\<close> (main.js):
  \<^verbatim>\<open>
  const num = typeof val === "string" ? parseFloat(val.replace("%", "")) : val;
  if (isNaN(num)) return isPercent ? "+0.00%" : "+0.00";
  return `${num >= 0 ? "+" : ""}${num.toFixed(digits)}${isPercent ? "%" : ""}`;
  \<close>
  \<^verbatim>\<open>val.replace("%", "")\<close> drops the first \<^verbatim>\<open>%\<close>. A value that is not a Number has no
  \<^verbatim>\<open>toFixed\<close>: the call throws a TypeError.
\<close>

definition formatSignedValue :: "jsval \<Rightarrow> int \<Rightarrow> bool \<Rightarrow> error + string" where
  "formatSignedValue val digits isPercent =
     (let num = (case val of Str s \<Rightarrow> Num (parseFloat (replaceFirst ''%'' [] s)) | _ \<Rightarrow> val)
      in case isNaN num of
           Inl e \<Rightarrow> Inl e
         | Inr True \<Rightarrow> Inr (if isPercent then ''+0.00%'' else ''+0.00'')
         | Inr False \<Rightarrow>
             (case num of
                Num n \<Rightarrow>
                  (case toFixed n digits of
                     Inl e \<Rightarrow> Inl e
                   | Inr body \<Rightarrow>
                       Inr ((if geZero n then ''+'' else []) @ body @
                            (if isPercent then ''%'' else [])))
              | _ \<Rightarrow> Inl TypeError))"




section \<open>The page\<close>

text \<open>
  The document is a store of elements, in document order; an element is addressed by
  its index. What an element holds is a list of nodes: text written through
  \<^verbatim>\<open>textContent\<close>, markup written through \<^verbatim>\<open>innerHTML\<close> (kept as the string that was
  assigned), or element nodes built with \<^verbatim>\<open>createElement\<close> and appended. The store
  keeps the parent of an element as an address, so two slots may share a container.
  The slots the scripts write are leaf elements of the template: writing one slot's
  text does not remove another element from the page.
  \<open>getContext\<close> is what \<^verbatim>\<open>el.getContext('2d')\<close> gives: a drawing context, null, or a
  TypeError when the element is no canvas.
\<close>

datatype node =
    Text string
  | Markup string
  | Element string string "(string \<times> string) list" "node list"

datatype context2d = NotCanvas | NoContext | Context2d

record element =
  elemId :: string
  content :: "node list"
  classList :: "string list"
  parentElement :: "nat option"
  getContext :: context2d

definition getElementById :: "element list \<Rightarrow> string \<Rightarrow> nat option" where
  "getElementById doc i =
     (if i = [] then None
      else (case filter (\<lambda>k. elemId (doc ! k) = i) [0..<length doc] of
              [] \<Rightarrow> None
            | k # ks \<Rightarrow> Some k))"

definition textNodes :: "string \<Rightarrow> node list" where
  "textNodes s = (if s = [] then [] else [Text s])"

definition setTextContent :: "nat \<Rightarrow> string \<Rightarrow> element list \<Rightarrow> element list" where
  "setTextContent a s doc = doc[a := (doc ! a)\<lparr>content := textNodes s\<rparr>]"

definition innerHTML :: "string \<Rightarrow> node list" where
  "innerHTML s = (if s = [] then [] else [Markup s])"

definition setInnerHTML :: "nat \<Rightarrow> string \<Rightarrow> element list \<Rightarrow> element list" where
  "setInnerHTML a s doc = doc[a := (doc ! a)\<lparr>content := innerHTML s\<rparr>]"

definition appendChild :: "nat \<Rightarrow> node \<Rightarrow> element list \<Rightarrow> element list" where
  "appendChild a n doc = doc[a := (doc ! a)\<lparr>content := content (doc ! a) @ [n]\<rparr>]"

definition parentOf :: "element list \<Rightarrow> nat \<Rightarrow> nat option" where
  "parentOf doc a =
     (case parentElement (doc ! a) of
        None \<Rightarrow> None
      | Some p \<Rightarrow> if p < length doc then Some p else None)"

definition classListRemove :: "string list \<Rightarrow> string list \<Rightarrow> string list" where
  "classListRemove ts cl = filter (\<lambda>c. c \<notin> set ts) cl"

definition classListAdd :: "string \<Rightarrow> string list \<Rightarrow> string list" where
  "classListAdd t cl = (if t \<in> set cl then cl else cl @ [t])"

text \<open>
  \<^verbatim>\<open>updateChartCardTextOnly(valueElementId, changeElementId, valueStr, changeStr)\<close>
  (main.js): both elements are looked up first; each text is written when its element
  exists and the argument is a string; the container of the change slot loses both
  sign classes and gets \<^verbatim>\<open>negative\<close> when the change string starts with \<^verbatim>\<open>-\<close>, else
  \<^verbatim>\<open>positive\<close>.
\<close>

definition updateChartCardTextOnly ::
  "string \<Rightarrow> string \<Rightarrow> jsval \<Rightarrow> jsval \<Rightarrow> element list \<Rightarrow> element list" where
  "updateChartCardTextOnly valueElementId changeElementId valueStr changeStr doc =
     (let valueEl = getElementById doc valueElementId;
          changeEl = getElementById doc changeElementId;
          doc1 = (case valueEl of
                    None \<Rightarrow> doc
                  | Some a \<Rightarrow> (case valueStr of Str s \<Rightarrow> setTextContent a (trim s) doc | _ \<Rightarrow> doc))
      in case changeEl of
           None \<Rightarrow> doc1
         | Some a \<Rightarrow>
             (case changeStr of
                Str s \<Rightarrow>
                  (let changeOuterSpan = parentOf doc1 a;
                       doc2 = setTextContent a (trim s) doc1
                   in case changeOuterSpan of
                        None \<Rightarrow> doc2
                      | Some p \<Rightarrow>
                          doc2[p := (doc2 ! p)\<lparr>classList :=
                            classListAdd (if startsWith s ''-'' then ''negative'' else ''positive'')
                              (classListRemove [''positive'', ''negative''] (classList (doc2 ! p)))\<rparr>])
              | _ \<Rightarrow> doc1))"

section \<open>The chart renderer\<close>

text \<open>
  The state the scripts share: the document, the registry \<^verbatim>\<open>window.charts\<close> (absent
  until the first render; an entry holds a chart instance or null),
  \<^verbatim>\<open>window.currentTicker\<close>, the calls made into the chart library (oldest first) and
  the lines written with \<^verbatim>\<open>console.error\<close> (\<^verbatim>\<open>console.log\<close> output is not kept). A chart
  instance is named by the number of library calls made before its construction.
  The configuration record keeps the data part, the title and the animation switch
  of the object literal; its other entries are constants.
\<close>

record chart_config =
  chartType :: string
  labels :: "jsval list"
  datasetLabel :: string
  data :: "jsval list"
  borderColor :: string
  borderWidth :: rat
  pointRadius :: int
  fill :: bool
  tension :: rat
  titleText :: string
  animation :: bool

record chart =
  chartId :: nat
  config :: chart_config

datatype entry = NullEntry | Instance chart

datatype chart_event = Constructed nat | Destroyed nat | ConstructionFailed

record world =
  document :: "element list"
  charts :: "(string \<rightharpoonup> entry) option"
  currentTicker :: jsval
  events :: "chart_event list"
  console :: "string list"

text \<open>
  The chart library is a parameter: \<open>lib w canvasId cfg\<close> says whether
  \<^verbatim>\<open>new Chart(ctx, cfg)\<close> returns (rather than throws) in state \<open>w\<close>. Its \<^verbatim>\<open>destroy\<close>
  returns.
\<close>

type_synonym chartjs = "world \<Rightarrow> string \<Rightarrow> chart_config \<Rightarrow> bool"

definition bindE :: "error + 'a \<Rightarrow> ('a \<Rightarrow> error + 'b) \<Rightarrow> error + 'b" where
  "bindE m f = (case m of Inl e \<Rightarrow> Inl e | Inr x \<Rightarrow> f x)"

text \<open>
  Property reads, for the property names the scripts use. A decoded object has its own
  properties only (of a repeated key the last one counts); arrays and strings have
  \<^verbatim>\<open>length\<close>, and inherit \<^verbatim>\<open>values\<close> resp. \<^verbatim>\<open>link\<close> from their prototypes; reading a
  property of null or undefined throws.
\<close>

definition getProp :: "jsval \<Rightarrow> string \<Rightarrow> error + jsval" where
  "getProp v name = (case v of
       Undefined \<Rightarrow> Inl TypeError
     | Null \<Rightarrow> Inl TypeError
     | Obj ps \<Rightarrow> Inr (case map_of (rev ps) name of None \<Rightarrow> Undefined | Some x \<Rightarrow> x)
     | Str s \<Rightarrow> Inr (if name = ''length'' then Num (Fin (of_nat (length s)))
                      else if name = ''link'' then Func ''link'' 1 else Undefined)
     | Arr xs \<Rightarrow> Inr (if name = ''length'' then Num (Fin (of_nat (length xs)))
                       else if name = ''values'' then Func ''values'' 0 else Undefined)
     | Func f n \<Rightarrow> Inr (if name = ''length'' then Num (Fin (of_nat n)) else Undefined)
     | _ \<Rightarrow> Inr Undefined)"

definition optProp :: "jsval \<Rightarrow> string \<Rightarrow> jsval" where
  "optProp v name = (case getProp v name of Inl e \<Rightarrow> Undefined | Inr x \<Rightarrow> x)"

definition sq :: string where
  "sq = [CHR 0x27]"

definition dq :: string where
  "dq = [CHR 0x22]"

text \<open>
  The chart title: \<^verbatim>\<open>canvasId.replace('Chart', '').replace(/([A-Z])/g, ' $1').trim()\<close>,
  its first letter in upper case, after the ticker when one is set. Upper case is
  modelled for the letters whose capital is a code unit below 256.
\<close>

definition toUpperCase :: "string \<Rightarrow> string" where
  "toUpperCase s = concat (map (\<lambda>c.
       let k = (of_char c :: nat)
       in if (97 \<le> k \<and> k \<le> 122) \<or> (224 \<le> k \<and> k \<le> 254 \<and> k \<noteq> 247) then [char_of (k - 32)]
          else if k = 223 then ''SS'' else [c]) s)"

definition metricName :: "string \<Rightarrow> string" where
  "metricName canvasId =
     trim (concat (map (\<lambda>c. if 65 \<le> (of_char c :: nat) \<and> (of_char c :: nat) \<le> 90
                             then [CHR '' '', c] else [c])
                       (replaceFirst ''Chart'' [] canvasId)))"

definition prettyName :: "string \<Rightarrow> string" where
  "prettyName canvasId =
     (let m = metricName canvasId in toUpperCase (take 1 m) @ drop 1 m)"

definition chartTitle :: "jsval \<Rightarrow> string \<Rightarrow> error + string" where
  "chartTitle tk canvasId =
     (let ticker = (if ToBoolean tk then tk else Str [])
      in if ToBoolean ticker
         then bindE (ToString ticker) (\<lambda>t. Inr (t @ '' '' @ prettyName canvasId))
         else Inr (prettyName canvasId))"

definition lessThan10 :: "jsval \<Rightarrow> error + bool" where
  "lessThan10 v = bindE (ToNumber v) (\<lambda>n. Inr (case n of
       NaN \<Rightarrow> False | PInf \<Rightarrow> False | NInf \<Rightarrow> True | Fin x \<Rightarrow> x < 10))"

definition pointRadiusOf :: "jsval \<Rightarrow> error + int" where
  "pointRadiusOf d =
     (if ToBoolean d
      then bindE (getProp d ''length'') (\<lambda>l. bindE (lessThan10 l) (\<lambda>b. Inr (if b then 2 else 0)))
      else Inr 0)"

definition buildConfig ::
  "jsval \<Rightarrow> string \<Rightarrow> jsval \<Rightarrow> jsval \<Rightarrow> string \<Rightarrow> error + chart_config" where
  "buildConfig tk canvasId d ls lineColor =
     bindE (chartTitle tk canvasId) (\<lambda>title.
     bindE (pointRadiusOf d) (\<lambda>r.
       Inr \<lparr>chartType = ''line'',
            labels = (case ls of Arr xs \<Rightarrow> xs | _ \<Rightarrow> []),
            datasetLabel = title,
            data = (case d of Arr xs \<Rightarrow> xs | _ \<Rightarrow> []),
            borderColor = lineColor,
            borderWidth = 3 / 2,
            pointRadius = r,
            fill = False,
            tension = 1 / 10,
            titleText = title,
            animation = False\<rparr>))"

definition registry :: "world \<Rightarrow> (string \<rightharpoonup> entry)" where
  "registry w = (case charts w of None \<Rightarrow> Map.empty | Some m \<Rightarrow> m)"

definition disposeExisting :: "string \<Rightarrow> world \<Rightarrow> world" where
  "disposeExisting canvasId w =
     (case registry w canvasId of
        Some (Instance c) \<Rightarrow>
          w\<lparr>charts := Some ((registry w)(canvasId \<mapsto> NullEntry)),
            events := events w @ [Destroyed (chartId c)]\<rparr>
      | _ \<Rightarrow> w\<lparr>charts := Some (registry w)\<rparr>)"

definition constructChart :: "chartjs \<Rightarrow> string \<Rightarrow> chart_config \<Rightarrow> world \<Rightarrow> world" where
  "constructChart lib canvasId cfg w =
     (if lib w canvasId cfg
      then w\<lparr>charts := Some ((registry w)(canvasId \<mapsto>
                  Instance \<lparr>chartId = length (events w), config = cfg\<rparr>)),
             events := events w @ [Constructed (length (events w))]\<rparr>
      else w\<lparr>events := events w @ [ConstructionFailed],
             console := console w @
               [''[charts.js] renderChart: Chart.js instantiation failed for '' @ sq @ canvasId @ sq @ '':'']\<rparr>)"

text \<open>
  \<^verbatim>\<open>renderChart(canvasId, data, labels, lineColor)\<close> (charts.js): (a) the canvas and
  its context, (b) the registered instance is destroyed and its entry set to null,
  (c, d) the configuration, (e) the construction inside \<^verbatim>\<open>try\<close>.
\<close>

definition renderChart ::
  "chartjs \<Rightarrow> string \<Rightarrow> jsval \<Rightarrow> jsval \<Rightarrow> string \<Rightarrow> world \<Rightarrow> error + world" where
  "renderChart lib canvasId d ls lineColor w =
     (case getElementById (document w) canvasId of
        None \<Rightarrow>
          Inr (w\<lparr>console := console w @
                 [''[charts.js] renderChart: Canvas '' @ sq @ canvasId @ sq @ '' not found.'']\<rparr>)
      | Some a \<Rightarrow>
          (case getContext (document w ! a) of
             NotCanvas \<Rightarrow> Inl TypeError
           | NoContext \<Rightarrow>
               Inr (w\<lparr>console := console w @
                      [''[charts.js] renderChart: 2D context for '' @ sq @ canvasId @ sq @ '' missing.'']\<rparr>)
           | Context2d \<Rightarrow>
               (let w1 = disposeExisting canvasId w
                in bindE (buildConfig (currentTicker w1) canvasId d ls lineColor)
                     (\<lambda>cfg. Inr (constructChart lib canvasId cfg w1)))))"

section \<open>The performance controller\<close>

text \<open>
  A fetch either rejects or gives a response: its \<^verbatim>\<open>ok\<close> flag and its body decoded
  as JSON (\<open>None\<close> when the body does not decode and \<^verbatim>\<open>response.json()\<close> rejects).
\<close>

datatype fetch_result = Rejected | Response bool "jsval option"

definition fallbackMetric :: jsval where
  "fallbackMetric =
     Obj [(''value'', Num (Fin 0)), (''change'', Num (Fin 0)), (''dates'', Arr []), (''values'', Arr [])]"

definition orFallback :: "jsval \<Rightarrow> jsval" where
  "orFallback v = (if ToBoolean v then v else fallbackMetric)"

definition fetchError :: "world \<Rightarrow> world" where
  "fetchError w = w\<lparr>console := console w @ [''[loadPerformanceDataAndRenderCharts] Fetch error:'']\<rparr>"

definition fetchApiData :: "fetch_result \<Rightarrow> world \<Rightarrow> jsval \<times> world" where
  "fetchApiData fr w =
     (case fr of
        Rejected \<Rightarrow> (Null, fetchError w)
      | Response ok body \<Rightarrow>
          if \<not> ok then (Null, fetchError w)
          else (case body of
                  None \<Rightarrow> (Null, fetchError w)
                | Some apiData \<Rightarrow>
                    (case getProp apiData ''error'' of
                       Inl e \<Rightarrow> (Null, fetchError w)
                     | Inr er \<Rightarrow>
                         if ToBoolean er
                         then (Null, w\<lparr>console := console w @
                                 [''[loadPerformanceDataAndRenderCharts] API returns error:'']\<rparr>)
                         else (apiData, w))))"

definition formatField :: "jsval \<Rightarrow> string \<Rightarrow> int \<Rightarrow> bool \<Rightarrow> error + string" where
  "formatField m name digits isPercent =
     bindE (getProp m name) (\<lambda>v. formatSignedValue v digits isPercent)"

definition renderMetric :: "chartjs \<Rightarrow> string \<Rightarrow> jsval \<Rightarrow> string \<Rightarrow> world \<Rightarrow> error + world" where
  "renderMetric lib canvasId m lineColor w =
     bindE (getProp m ''values'') (\<lambda>vs.
     bindE (getProp m ''dates'') (\<lambda>ds.
       renderChart lib canvasId vs ds lineColor w))"

text \<open>
  \<^verbatim>\<open>loadPerformanceDataAndRenderCharts(ticker)\<close> (main.js), after its fetch has
  settled: the \<^verbatim>\<open>try\<close> block leaves the payload or null; each metric is the payload's
  or the fallback; eight strings are formatted; four cards are written; the ticker is
  stored; four charts are rendered.
\<close>

definition loadPerformanceDataAndRenderCharts ::
  "chartjs \<Rightarrow> fetch_result \<Rightarrow> string \<Rightarrow> world \<Rightarrow> error + world" where
  "loadPerformanceDataAndRenderCharts lib fr ticker w0 =
     (case fetchApiData fr w0 of (apiData, w) \<Rightarrow>
       (let rpData = orFallback (optProp apiData ''relative_performance'');
            zData = orFallback (optProp apiData ''moving_z_score'');
            aData = orFallback (optProp apiData ''alpha'');
            caData = orFallback (optProp apiData ''cumulative_alpha'')
        in bindE (formatField rpData ''value'' 2 True) (\<lambda>rpVal.
           bindE (formatField rpData ''change'' 2 True) (\<lambda>rpChg.
           bindE (formatField zData ''value'' 2 False) (\<lambda>zVal.
           bindE (formatField zData ''change'' 2 False) (\<lambda>zChg.
           bindE (formatField aData ''value'' 3 False) (\<lambda>aVal.
           bindE (formatField aData ''change'' 3 False) (\<lambda>aChg.
           bindE (formatField caData ''value'' 2 False) (\<lambda>caVal.
           bindE (formatField caData ''change'' 2 False) (\<lambda>caChg.
             (let doc1 = updateChartCardTextOnly ''rp-value'' ''rp-change'' (Str rpVal) (Str rpChg) (document w);
                  doc2 = updateChartCardTextOnly ''zscore-value'' ''zscore-change'' (Str zVal) (Str zChg) doc1;
                  doc3 = updateChartCardTextOnly ''alpha-value'' ''alpha-change'' (Str aVal) (Str aChg) doc2;
                  doc4 = updateChartCardTextOnly ''cumulative-alpha-value'' ''cumulative-alpha-change''
                           (Str caVal) (Str caChg) doc3;
                  w1 = w\<lparr>document := doc4, currentTicker := Str ticker\<rparr>
              in bindE (renderMetric lib ''relativePerformanceChart'' rpData ''#1E90FF'' w1) (\<lambda>w2.
                 bindE (renderMetric lib ''movingZScoreChart'' zData ''#FFA500'' w2) (\<lambda>w3.
                 bindE (renderMetric lib ''alphaChart'' aData ''#32CD32'' w3) (\<lambda>w4.
                 renderMetric lib ''cumulativeAlphaChart'' caData ''#9370DB'' w4))))))))))))))"

section \<open>The article card builder\<close>

text \<open>
  \<^verbatim>\<open>loadFmpArticles\<close> (main.js) builds one card per article. The locale rendering of a
  date, \<^verbatim>\<open>new Date(v).toLocaleString('en-US', ...)\<close>, is the parameter \<open>fmt\<close>. The em
  dash and the arrow of the templates lie beyond the code units of \<open>char\<close> and are
  written as character references.
\<close>

definition spaces :: "nat \<Rightarrow> string" where
  "spaces k = CHR 0x0A # replicate k CHR '' ''"

text \<open>
  The snippet: \<^verbatim>\<open>rawHtml = article.content || ''\<close>, cut after the first \<^verbatim>\<open></p>\<close> when
  \<^verbatim>\<open>rawHtml.indexOf('</p>') > 0\<close>. An array has \<^verbatim>\<open>indexOf\<close> and \<^verbatim>\<open>slice\<close> of its own;
  on any other value that is not a string the call throws.
\<close>

fun arrayIndexOf :: "jsval list \<Rightarrow> jsval \<Rightarrow> int" where
  "arrayIndexOf [] x = - 1"
| "arrayIndexOf (y # ys) x =
     (if y = x then 0 else (let i = arrayIndexOf ys x in if i < 0 then - 1 else i + 1))"

definition firstParagraph :: "jsval \<Rightarrow> error + jsval" where
  "firstParagraph rawHtml = (case rawHtml of
       Str s \<Rightarrow>
         (let closingP = indexOf s ''</p>''
          in Inr (if 0 < closingP then Str (take (nat (closingP + 4)) s) else rawHtml))
     | Arr xs \<Rightarrow>
         (let closingP = arrayIndexOf xs (Str ''</p>'')
          in Inr (if 0 < closingP then Arr (take (nat (closingP + 4)) xs) else rawHtml))
     | _ \<Rightarrow> Inl TypeError)"

definition buildCard :: "(jsval \<Rightarrow> string) \<Rightarrow> jsval \<Rightarrow> error + node" where
  "buildCard fmt article =
     bindE (getProp article ''image'') (\<lambda>image.
     bindE (ToString (if ToBoolean image then image else Str ''/static/images/placeholder.png'')) (\<lambda>src.
     bindE (getProp article ''site'') (\<lambda>site.
     bindE (ToString (if ToBoolean site then site else Str ''FMP'')) (\<lambda>siteName.
     bindE (getProp article ''date'') (\<lambda>date.
     bindE (if ToBoolean date then bindE (ToString date) (\<lambda>d. Inr (fmt date)) else Inr []) (\<lambda>formattedDate.
     bindE (getProp article ''author'') (\<lambda>author.
     bindE (if ToBoolean author
            then bindE (ToString author) (\<lambda>a.
                   Inr (''&nbsp;&mdash;&nbsp;<span class='' @ dq @ ''author'' @ dq @ ''>'' @ a @ ''</span>''))
            else Inr []) (\<lambda>authorPart.
     bindE (getProp article ''link'') (\<lambda>link.
     bindE (ToString link) (\<lambda>href.
     bindE (getProp article ''title'') (\<lambda>title.
     bindE (ToString title) (\<lambda>titleText.
     bindE (getProp article ''content'') (\<lambda>c.
     bindE (firstParagraph (if ToBoolean c then c else Str [])) (\<lambda>fp.
     bindE (ToString fp) (\<lambda>snippet.
       Inr (Element ''div'' ''fmp-article-card'' []
         [Element ''div'' ''fmp-article-image'' []
            [Element ''img'' [] [(''src'', src), (''alt'', siteName @ '' logo'')] []],
          Element ''div'' ''fmp-article-content'' []
            [Element ''div'' ''fmp-article-meta'' []
               (innerHTML (spaces 16 @ ''<span class='' @ dq @ ''date'' @ dq @ ''>'' @ formattedDate @ ''</span>''
                           @ spaces 16 @ authorPart @ spaces 12)),
             Element ''h3'' ''fmp-article-headline'' []
               (innerHTML (spaces 16 @ ''<a href='' @ dq @ href @ dq @ '' target='' @ dq @ ''_blank'' @ dq
                           @ '' rel='' @ dq @ ''noopener'' @ dq @ ''>''
                           @ spaces 20 @ titleText @ spaces 16 @ ''</a>'')),
             Element ''div'' ''fmp-article-snippet'' [] (innerHTML snippet),
             Element ''div'' ''fmp-article-readmore'' []
               (innerHTML (spaces 16 @ ''<a href='' @ dq @ href @ dq @ '' target='' @ dq @ ''_blank'' @ dq
                           @ '' rel='' @ dq @ ''noopener'' @ dq @ ''>Read More &rarr;</a>''
                           @ spaces 12))]]))))))))))))))))"

fun appendCards :: "(jsval \<Rightarrow> string) \<Rightarrow> nat \<Rightarrow> jsval list \<Rightarrow> element list \<Rightarrow> error + element list" where
  "appendCards fmt c [] doc = Inr doc"
| "appendCards fmt c (article # rest) doc =
     bindE (buildCard fmt article) (\<lambda>card. appendCards fmt c rest (appendChild c card doc))"

definition loadFmpArticles :: "(jsval \<Rightarrow> string) \<Rightarrow> fetch_result \<Rightarrow> world \<Rightarrow> error + world" where
  "loadFmpArticles fmt fr w =
     (case getElementById (document w) ''fmp-articles-container'' of
        None \<Rightarrow>
          Inr (w\<lparr>console := console w @
                 [''[loadFmpArticles] Container not found: #fmp-articles-container'']\<rparr>)
      | Some c \<Rightarrow>
          (let doc1 = setInnerHTML c ''<p>Loading latest market articles...</p>'' (document w);
               failed = Inr (w\<lparr>document := setInnerHTML c ''<p>Failed to load FMP articles.</p>'' doc1,
                              console := console w @ [''[loadFmpArticles] Error fetching FMP articles:'']\<rparr>);
               none = Inr (w\<lparr>document := setInnerHTML c ''<p>No FMP articles available.</p>'' doc1\<rparr>)
           in case fr of
                Rejected \<Rightarrow> failed
              | Response ok body \<Rightarrow>
                  if \<not> ok then failed
                  else (case body of
                          None \<Rightarrow> failed
                        | Some articles \<Rightarrow>
                            (case articles of
                               Arr xs \<Rightarrow>
                                 if xs = [] then none
                                 else bindE (appendCards fmt c xs (setInnerHTML c [] doc1))
                                        (\<lambda>doc2. Inr (w\<lparr>document := doc2\<rparr>))
                             | _ \<Rightarrow> none))))"

section \<open>The template\<close>

text \<open>
  The elements of \<^verbatim>\<open>index.html\<close> that the scripts address, in document order, each
  slot with its parent: the two containers, then per card the value slot in its
  \<^verbatim>\<open>chart-value\<close> block, the change slot in its \<^verbatim>\<open>chart-change\<close> block and the canvas.
\<close>

definition block :: "string \<Rightarrow> element" where
  "block cls = \<lparr>elemId = [], content = [], classList = [cls], parentElement = None,
                getContext = NotCanvas\<rparr>"

definition slot :: "string \<Rightarrow> nat \<Rightarrow> element" where
  "slot i p = \<lparr>elemId = i, content = [], classList = [], parentElement = Some p,
               getContext = NotCanvas\<rparr>"

definition canvas :: "string \<Rightarrow> nat \<Rightarrow> element" where
  "canvas i p = \<lparr>elemId = i, content = [], classList = [], parentElement = Some p,
                 getContext = Context2d\<rparr>"

definition chartCard :: "nat \<Rightarrow> string \<Rightarrow> string \<Rightarrow> string \<Rightarrow> element list" where
  "chartCard base valueId changeId canvasId =
     [block ''chart-value'', slot valueId base,
      block ''chart-change'', slot changeId (base + 2),
      block ''canvas-container'', canvas canvasId (base + 4)]"

definition templatePage :: "element list" where
  "templatePage =
     [(block ''text-news-container'')\<lparr>elemId := ''fmp-articles-container''\<rparr>,
      (block ''text-news-container'')\<lparr>elemId := ''ticker-news-container''\<rparr>]
     @ chartCard 2 ''rp-value'' ''rp-change'' ''relativePerformanceChart''
     @ chartCard 8 ''zscore-value'' ''zscore-change'' ''movingZScoreChart''
     @ chartCard 14 ''alpha-value'' ''alpha-change'' ''alphaChart''
     @ chartCard 20 ''cumulative-alpha-value'' ''cumulative-alpha-change'' ''cumulativeAlphaChart''"

definition initialWorld :: world where
  "initialWorld = \<lparr>document = templatePage, charts = None, currentTicker = Undefined,
                    events = [], console = []\<rparr>"

text \<open>
  Two chart libraries for examples: one whose constructor always returns and one whose
  constructor always throws; the configuration of a chart without data; the state
  after \<^verbatim>\<open>alphaChart\<close> was rendered once without data.
\<close>

definition alwaysConstructs :: chartjs where
  "alwaysConstructs w canvasId cfg = True"

definition neverConstructs :: chartjs where
  "neverConstructs w canvasId cfg = False"

definition emptyChart :: "string \<Rightarrow> string \<Rightarrow> chart_config" where
  "emptyChart title lineColor =
     \<lparr>chartType = ''line'', labels = [], datasetLabel = title, data = [],
      borderColor = lineColor, borderWidth = 3 / 2, pointRadius = 2, fill = False,
      tension = 1 / 10, titleText = title, animation = False\<rparr>"

definition chartedWorld :: world where
  "chartedWorld =
     initialWorld\<lparr>charts := Some [''alphaChart'' \<mapsto>
                      Instance \<lparr>chartId = 0, config = emptyChart ''Alpha'' ''#32CD32''\<rparr>],
                   events := [Constructed 0]\<rparr>"


definition samplePayload :: jsval where
  "samplePayload =
     Obj [(''relative_performance'',
             Obj [(''value'', Str ''-5.00%''), (''change'', Str ''+1.00%''),
                  (''dates'', Arr [Str ''Jan'']), (''values'', Arr [Num (Fin (- 5))])]),
          (''moving_z_score'',
             Obj [(''value'', Num (Fin (- 1 / 2))), (''change'', Num (Fin (1 / 4))),
                  (''dates'', Arr [Str ''Jan'']), (''values'', Arr [Num (Fin (- 1 / 2))])])]"


section \<open>Notions used in the statements\<close>

text \<open>
  What a slot shows and which classes its container carries; the value and change
  slots and the canvases of the four metrics; values the formatter takes without
  throwing (strings, Numbers, an absent field) and metrics whose fields are such and
  whose series is no object. Two documents have the same frame when their elements
  agree in id, parent and context, as they do after any write of the scripts.
\<close>

definition slotContent :: "world \<Rightarrow> string \<Rightarrow> node list option" where
  "slotContent w i =
     (case getElementById (document w) i of
        None \<Rightarrow> None
      | Some a \<Rightarrow> Some (content (document w ! a)))"

definition containerOf :: "element list \<Rightarrow> string \<Rightarrow> nat option" where
  "containerOf doc i =
     (case getElementById doc i of None \<Rightarrow> None | Some a \<Rightarrow> parentOf doc a)"

definition containerClasses :: "world \<Rightarrow> string \<Rightarrow> string list option" where
  "containerClasses w i =
     (case containerOf (document w) i of
        None \<Rightarrow> None
      | Some p \<Rightarrow> Some (classList (document w ! p)))"

definition sameFrame :: "element list \<Rightarrow> element list \<Rightarrow> bool" where
  "sameFrame doc' doc =
     (map elemId doc' = map elemId doc \<and> map parentElement doc' = map parentElement doc \<and>
      map getContext doc' = map getContext doc)"



definition formattable :: "jsval \<Rightarrow> bool" where
  "formattable v = (case v of Str s \<Rightarrow> True | Num n \<Rightarrow> True | Undefined \<Rightarrow> True | _ \<Rightarrow> False)"



definition classesAfter :: "error + world \<Rightarrow> string \<Rightarrow> string list option" where
  "classesAfter r i = (case r of Inl e \<Rightarrow> None | Inr w \<Rightarrow> containerClasses w i)"

section \<open>Properties of the value formatter\<close>




















lemma toDouble_not_NaN: "toDouble x \<noteq> NaN"
  by (simp add: toDouble_def Let_def)

lemma strUnsigned_not_NaN: "strUnsignedDecimalLiteral s = Some (n, r) \<Longrightarrow> n \<noteq> NaN"
  by (auto simp: strUnsignedDecimalLiteral_def Let_def toDouble_not_NaN
      split: if_splits list.splits prod.splits)

lemma negate_not_NaN: "n \<noteq> NaN \<Longrightarrow> negate n \<noteq> NaN"
  by (cases n) (simp_all add: negate_def)

lemma strDecimal_not_NaN: "strDecimalLiteral s = Some (n, r) \<Longrightarrow> n \<noteq> NaN"
  by (auto simp: strDecimalLiteral_def dest: strUnsigned_not_NaN negate_not_NaN
      split: if_splits list.splits)

text \<open>
  \<^verbatim>\<open>parseFloat\<close> gives NaN exactly for the strings without a decimal literal at their
  (trimmed) start.
\<close>

lemma parseFloat_NaN_iff: "parseFloat s = NaN \<longleftrightarrow> strDecimalLiteral (trimStart s) = None"
  by (auto simp: parseFloat_def dest: strDecimal_not_NaN split: option.splits)

lemma formatSignedValue_Str:
  "formatSignedValue (Str s) d p = formatSignedValue (Num (parseFloat (replaceFirst ''%'' [] s))) d p"
  by (simp add: formatSignedValue_def)

lemma formatSignedValue_NaN:
  "formatSignedValue (Num NaN) d p = Inr (if p then ''+0.00%'' else ''+0.00'')"
  by (simp add: formatSignedValue_def isNaN_def ToNumber_def)























section \<open>Properties of the chart renderer\<close>

lemma bindE_Inr [simp]: "bindE (Inr x) f = f x"
  by (simp add: bindE_def)

lemma bindE_Inl [simp]: "bindE (Inl e) f = Inl e"
  by (simp add: bindE_def)

lemma pointRadiusOf_Arr: "pointRadiusOf (Arr xs) = Inr (if length xs < 10 then 2 else 0)"
  by (simp add: pointRadiusOf_def ToBoolean_def getProp_def lessThan10_def ToNumber_def)

lemma pointRadiusOf_falsy: "\<not> ToBoolean d \<Longrightarrow> pointRadiusOf d = Inr 0"
  by (simp add: pointRadiusOf_def)

lemma pointRadiusOf_length:
  assumes "pointRadiusOf d = Inr r"
  shows "r = (if ToBoolean d \<and> lessThan10 (optProp d ''length'') = Inr True then 2 else 0)"
proof (cases "ToBoolean d")
  case False
  then show ?thesis using assms by (simp add: pointRadiusOf_def)
next
  case True
  then have g: "getProp d ''length'' = Inr (optProp d ''length'')"
    by (cases d) (simp_all add: ToBoolean_def optProp_def getProp_def)
  show ?thesis
  proof (cases "lessThan10 (optProp d ''length'')")
    case (Inl e)
    then show ?thesis using assms True g by (simp add: pointRadiusOf_def)
  next
    case (Inr b)
    then show ?thesis using assms True g by (auto simp: pointRadiusOf_def)
  qed
qed

lemma pointRadiusOf_Str:
  "pointRadiusOf (Str s) = Inr (if s \<noteq> [] \<and> length s < 10 then 2 else 0)"
  by (simp add: pointRadiusOf_def ToBoolean_def getProp_def lessThan10_def ToNumber_def)

text \<open>
  C7 (amended). For every data and labels argument, the configuration that is built
  uses the data argument when it is an array and the empty sequence otherwise, and
  likewise the labels. The point radius is 2 when the data argument is truthy and its
  \<^verbatim>\<open>length\<close> is below 10, and 0 otherwise: for an array of data it is 0 exactly when
  the length of the series is at least 10, and 2 otherwise; for a non-empty string of
  fewer than 10 characters the series is empty and the radius is 2; for data that is
  undefined, null or otherwise falsy the series is empty and the radius is 0.
\<close>

theorem buildConfig_series:
  "(buildConfig tk canvasId d ls lineColor = Inr cfg \<longrightarrow>
       data cfg = (case d of Arr xs \<Rightarrow> xs | _ \<Rightarrow> [])
     \<and> labels cfg = (case ls of Arr l \<Rightarrow> l | _ \<Rightarrow> [])
     \<and> pointRadius cfg =
         (if ToBoolean d \<and> lessThan10 (optProp d ''length'') = Inr True then 2 else 0))
   \<and> (chartTitle tk canvasId = Inr title \<longrightarrow>
     buildConfig tk canvasId (Arr xs) ls lineColor =
       Inr \<lparr>chartType = ''line'', labels = (case ls of Arr l \<Rightarrow> l | _ \<Rightarrow> []),
            datasetLabel = title, data = xs, borderColor = lineColor, borderWidth = 3 / 2,
            pointRadius = (if 10 \<le> length xs then 0 else 2), fill = False, tension = 1 / 10,
            titleText = title, animation = False\<rparr>
     \<and> buildConfig tk canvasId (Str s) ls lineColor =
       Inr \<lparr>chartType = ''line'', labels = (case ls of Arr l \<Rightarrow> l | _ \<Rightarrow> []),
            datasetLabel = title, data = [], borderColor = lineColor, borderWidth = 3 / 2,
            pointRadius = (if s \<noteq> [] \<and> length s < 10 then 2 else 0), fill = False,
            tension = 1 / 10, titleText = title, animation = False\<rparr>
     \<and> (\<not> ToBoolean d \<longrightarrow>
          buildConfig tk canvasId d ls lineColor =
            Inr \<lparr>chartType = ''line'', labels = (case ls of Arr l \<Rightarrow> l | _ \<Rightarrow> []),
                 datasetLabel = title, data = [], borderColor = lineColor, borderWidth = 3 / 2,
                 pointRadius = 0, fill = False, tension = 1 / 10,
                 titleText = title, animation = False\<rparr>))"
proof (intro impI conjI)
  assume b: "buildConfig tk canvasId d ls lineColor = Inr cfg"
  then obtain t r where t: "chartTitle tk canvasId = Inr t" and r: "pointRadiusOf d = Inr r"
    and c: "cfg = \<lparr>chartType = ''line'', labels = (case ls of Arr xs \<Rightarrow> xs | _ \<Rightarrow> []),
                    datasetLabel = t, data = (case d of Arr xs \<Rightarrow> xs | _ \<Rightarrow> []),
                    borderColor = lineColor, borderWidth = 3 / 2, pointRadius = r, fill = False,
                    tension = 1 / 10, titleText = t, animation = False\<rparr>"
    by (auto simp: buildConfig_def bindE_def split: sum.splits)
  show "data cfg = (case d of Arr xs \<Rightarrow> xs | _ \<Rightarrow> [])" by (simp add: c)
  show "labels cfg = (case ls of Arr l \<Rightarrow> l | _ \<Rightarrow> [])" by (simp add: c)
  show "pointRadius cfg =
        (if ToBoolean d \<and> lessThan10 (optProp d ''length'') = Inr True then 2 else 0)"
    using pointRadiusOf_length[OF r] by (simp add: c)
next
  assume t: "chartTitle tk canvasId = Inr title"
  show "buildConfig tk canvasId (Arr xs) ls lineColor =
       Inr \<lparr>chartType = ''line'', labels = (case ls of Arr l \<Rightarrow> l | _ \<Rightarrow> []),
            datasetLabel = title, data = xs, borderColor = lineColor, borderWidth = 3 / 2,
            pointRadius = (if 10 \<le> length xs then 0 else 2), fill = False, tension = 1 / 10,
            titleText = title, animation = False\<rparr>"
    by (simp add: buildConfig_def t pointRadiusOf_Arr)
next
  assume t: "chartTitle tk canvasId = Inr title"
  show "buildConfig tk canvasId (Str s) ls lineColor =
       Inr \<lparr>chartType = ''line'', labels = (case ls of Arr l \<Rightarrow> l | _ \<Rightarrow> []),
            datasetLabel = title, data = [], borderColor = lineColor, borderWidth = 3 / 2,
            pointRadius = (if s \<noteq> [] \<and> length s < 10 then 2 else 0), fill = False,
            tension = 1 / 10, titleText = title, animation = False\<rparr>"
    by (simp add: buildConfig_def t pointRadiusOf_Str)
next
  assume t: "chartTitle tk canvasId = Inr title" and f: "\<not> ToBoolean d"
  from f have "\<forall>xs. d \<noteq> Arr xs" by (auto simp: ToBoolean_def)
  then have "(case d of Arr xs \<Rightarrow> xs | _ \<Rightarrow> []) = []" by (cases d) simp_all
  then show "buildConfig tk canvasId d ls lineColor =
            Inr \<lparr>chartType = ''line'', labels = (case ls of Arr l \<Rightarrow> l | _ \<Rightarrow> []),
                 datasetLabel = title, data = [], borderColor = lineColor, borderWidth = 3 / 2,
                 pointRadius = 0, fill = False, tension = 1 / 10,
                 titleText = title, animation = False\<rparr>"
    by (simp add: buildConfig_def t pointRadiusOf_falsy[OF f])
qed

lemma prettyName_rp: "prettyName ''relativePerformanceChart'' = ''Relative Performance''"
  by code_simp

lemma chartTitle_IBM_rp: "chartTitle (Str ''IBM'') ''relativePerformanceChart'' = Inr ''IBM Relative Performance''"
  by (simp add: chartTitle_def ToBoolean_def prettyName_rp)

theorem buildConfig_series_witness:
  "buildConfig (Str ''IBM'') ''relativePerformanceChart'' (Arr [Num (Fin (- 5))]) (Arr [Str ''Jan'']) ''#1E90FF'' =
     Inr \<lparr>chartType = ''line'', labels = [Str ''Jan''],
          datasetLabel = ''IBM Relative Performance'', data = [Num (Fin (- 5))],
          borderColor = ''#1E90FF'', borderWidth = 3 / 2,
          pointRadius = 2, fill = False, tension = 1 / 10,
          titleText = ''IBM Relative Performance'', animation = False\<rparr>
   \<and> buildConfig (Str ''IBM'') ''relativePerformanceChart'' (Str ''abcdefghi'') (Arr [Str ''Jan'']) ''#1E90FF'' =
     Inr \<lparr>chartType = ''line'', labels = [Str ''Jan''],
          datasetLabel = ''IBM Relative Performance'', data = [],
          borderColor = ''#1E90FF'', borderWidth = 3 / 2,
          pointRadius = 2, fill = False, tension = 1 / 10,
          titleText = ''IBM Relative Performance'', animation = False\<rparr>
   \<and> buildConfig (Str ''IBM'') ''relativePerformanceChart'' Null (Arr [Str ''Jan'']) ''#1E90FF'' =
     Inr \<lparr>chartType = ''line'', labels = [Str ''Jan''],
          datasetLabel = ''IBM Relative Performance'', data = [],
          borderColor = ''#1E90FF'', borderWidth = 3 / 2,
          pointRadius = 0, fill = False, tension = 1 / 10,
          titleText = ''IBM Relative Performance'', animation = False\<rparr>"
  using buildConfig_series[where tk = "Str ''IBM''" and canvasId = "''relativePerformanceChart''"
      and title = "''IBM Relative Performance''" and xs = "[Num (Fin (- 5))]"
      and ls = "Arr [Str ''Jan'']" and lineColor = "''#1E90FF''" and d = Null
      and s = "''abcdefghi''", THEN conjunct2]
    chartTitle_IBM_rp
  by (simp add: ToBoolean_def)

text \<open>
  The claim as stated fails when the data argument is absent: the series is then
  empty, shorter than 10, and yet the point radius is 0.
\<close>

theorem buildConfig_undefined_data:
  "buildConfig (Str ''IBM'') ''relativePerformanceChart'' Undefined Undefined ''#1E90FF'' =
     Inr \<lparr>chartType = ''line'', labels = [],
          datasetLabel = ''IBM Relative Performance'', data = [],
          borderColor = ''#1E90FF'', borderWidth = 3 / 2,
          pointRadius = 0, fill = False, tension = 1 / 10,
          titleText = ''IBM Relative Performance'', animation = False\<rparr>"
  by (simp add: buildConfig_def chartTitle_IBM_rp pointRadiusOf_def ToBoolean_def)

lemma registry_dispose:
  "registry (disposeExisting canvasId w) =
     (case registry w canvasId of
        Some (Instance c) \<Rightarrow> (registry w)(canvasId \<mapsto> NullEntry)
      | _ \<Rightarrow> registry w)"
  by (simp add: disposeExisting_def registry_def split: option.splits entry.splits)

lemma events_dispose:
  "events (disposeExisting canvasId w) =
     events w @ (case registry w canvasId of Some (Instance c) \<Rightarrow> [Destroyed (chartId c)] | _ \<Rightarrow> [])"
  by (simp add: disposeExisting_def split: option.splits entry.splits)

lemma dispose_frame:
  "document (disposeExisting canvasId w) = document w"
  "currentTicker (disposeExisting canvasId w) = currentTicker w"
  "console (disposeExisting canvasId w) = console w"
  by (simp_all add: disposeExisting_def split: option.splits entry.splits)

lemma renderChart_Context2d:
  assumes "getElementById (document w) canvasId = Some a"
    and "getContext (document w ! a) = Context2d"
    and "buildConfig (currentTicker w) canvasId d ls lineColor = Inr cfg"
  shows "renderChart lib canvasId d ls lineColor w =
         Inr (constructChart lib canvasId cfg (disposeExisting canvasId w))"
  using assms by (simp add: renderChart_def Let_def dispose_frame)

text \<open>
  C8 (amended). When no element has the given id, \<open>renderChart\<close> writes the line
  "Canvas ... not found." to the error console and returns; when the element gives no
  2D context it writes "2D context for ... missing." and returns; in both cases the
  document, the registry, the ticker and the record of library calls are as before.
  When the element with the id is not a canvas, the call throws a TypeError.
\<close>

theorem renderChart_no_surface:
  "(getElementById (document w) canvasId = None \<longrightarrow>
      renderChart lib canvasId d ls lineColor w =
        Inr (w\<lparr>console := console w @
               [''[charts.js] renderChart: Canvas '' @ sq @ canvasId @ sq @ '' not found.'']\<rparr>))
   \<and> (getElementById (document w) canvasId = Some a \<and> getContext (document w ! a) = NoContext \<longrightarrow>
      renderChart lib canvasId d ls lineColor w =
        Inr (w\<lparr>console := console w @
               [''[charts.js] renderChart: 2D context for '' @ sq @ canvasId @ sq @ '' missing.'']\<rparr>))
   \<and> (getElementById (document w) canvasId = Some a \<and> getContext (document w ! a) = NotCanvas \<longrightarrow>
      renderChart lib canvasId d ls lineColor w = Inl TypeError)"
  by (simp add: renderChart_def)

lemma template_missingChart: "getElementById templatePage ''missingChart'' = None"
  by code_simp

lemma template_rp_value:
  "getElementById templatePage ''rp-value'' = Some 3"
  "getContext (templatePage ! 3) = NotCanvas"
  by code_simp+

theorem renderChart_no_surface_witness:
  "renderChart alwaysConstructs ''missingChart'' (Arr []) (Arr []) ''#fff'' initialWorld =
     Inr (initialWorld\<lparr>console := console initialWorld @
            [''[charts.js] renderChart: Canvas '' @ sq @ ''missingChart'' @ sq @ '' not found.'']\<rparr>)"
proof -
  have n: "getElementById (document initialWorld) ''missingChart'' = None"
    by (simp add: initialWorld_def template_missingChart)
  from renderChart_no_surface[of initialWorld "''missingChart''", THEN conjunct1, rule_format, OF n]
  show ?thesis .
qed

text \<open>
  The claim as stated fails for an element that is not a canvas: \<^verbatim>\<open>rp-value\<close> is a
  \<^verbatim>\<open>span\<close> of the template, it has no \<^verbatim>\<open>getContext\<close>, and the call throws.
\<close>

theorem renderChart_not_a_canvas:
  "renderChart alwaysConstructs ''rp-value'' (Arr []) (Arr []) ''#fff'' initialWorld = Inl TypeError"
  by (simp add: renderChart_def initialWorld_def template_rp_value)

text \<open>
  C10. When an instance is registered under the canvas id and the construction of
  its replacement throws, the call returns with the old instance destroyed, the
  registry entry null and nothing constructed; the other entries are as before.
\<close>

theorem renderChart_failed_replacement:
  assumes "getElementById (document w) canvasId = Some a"
    and "getContext (document w ! a) = Context2d"
    and "registry w canvasId = Some (Instance c)"
    and "buildConfig (currentTicker w) canvasId d ls lineColor = Inr cfg"
    and "\<not> lib (disposeExisting canvasId w) canvasId cfg"
  shows "\<exists>w'. renderChart lib canvasId d ls lineColor w = Inr w'
           \<and> registry w' = (registry w)(canvasId \<mapsto> NullEntry)
           \<and> events w' = events w @ [Destroyed (chartId c), ConstructionFailed]
           \<and> document w' = document w"
proof -
  let ?w1 = "disposeExisting canvasId w"
  have r: "renderChart lib canvasId d ls lineColor w = Inr (constructChart lib canvasId cfg ?w1)"
    by (rule renderChart_Context2d[OF assms(1,2,4)])
  have c: "constructChart lib canvasId cfg ?w1 =
      ?w1\<lparr>events := events ?w1 @ [ConstructionFailed],
           console := console ?w1 @
             [''[charts.js] renderChart: Chart.js instantiation failed for '' @ sq @ canvasId @ sq @ '':'']\<rparr>"
    using assms(5) by (simp add: constructChart_def)
  have "registry (constructChart lib canvasId cfg ?w1) = (registry w)(canvasId \<mapsto> NullEntry)"
    unfolding c using assms(3) by (simp add: registry_def disposeExisting_def)
  moreover have "events (constructChart lib canvasId cfg ?w1) = events w @ [Destroyed (chartId c), ConstructionFailed]"
    unfolding c using assms(3) by (simp add: events_dispose)
  moreover have "document (constructChart lib canvasId cfg ?w1) = document w"
    unfolding c by (simp add: dispose_frame)
  ultimately show ?thesis using r by simp
qed

lemma constructChart_ok:
  assumes "lib w canvasId cfg"
  shows "constructChart lib canvasId cfg w =
         w\<lparr>charts := Some ((registry w)(canvasId \<mapsto> Instance \<lparr>chartId = length (events w), config = cfg\<rparr>)),
           events := events w @ [Constructed (length (events w))]\<rparr>"
  using assms by (simp add: constructChart_def)

lemma registry_charts_update [simp]: "registry (w\<lparr>charts := Some m\<rparr>) = m"
  by (simp add: registry_def)

lemma registry_events_update [simp]: "registry (w\<lparr>events := es\<rparr>) = registry w"
  by (simp add: registry_def)

lemma registry_console_update [simp]: "registry (w\<lparr>console := cs\<rparr>) = registry w"
  by (simp add: registry_def)

text \<open>
  C4. Two calls of \<open>renderChart\<close> for a canvas with a 2D context, the chart library
  constructing in the two states in which it is called (each time after the disposal
  of what was registered): after the second call the registry holds one instance
  under the canvas id, the second one; the calls made into the library are, after
  the disposal of an instance registered before, the construction of the first
  instance, its disposal (once) and then the construction of the second.
\<close>

theorem renderChart_twice:
  assumes "getElementById (document w) canvasId = Some a"
    and "getContext (document w ! a) = Context2d"
    and "buildConfig (currentTicker w) canvasId d1 ls1 col1 = Inr cfg1"
    and "buildConfig (currentTicker w) canvasId d2 ls2 col2 = Inr cfg2"
    and "lib (disposeExisting canvasId w) canvasId cfg1"
    and "lib (disposeExisting canvasId (constructChart lib canvasId cfg1 (disposeExisting canvasId w)))
           canvasId cfg2"
  shows "\<exists>w1 w2 i.
           renderChart lib canvasId d1 ls1 col1 w = Inr w1
         \<and> renderChart lib canvasId d2 ls2 col2 w1 = Inr w2
         \<and> registry w1 canvasId = Some (Instance \<lparr>chartId = i, config = cfg1\<rparr>)
         \<and> registry w2 canvasId = Some (Instance \<lparr>chartId = i + 2, config = cfg2\<rparr>)
         \<and> events w2 = events w
              @ (case registry w canvasId of Some (Instance c) \<Rightarrow> [Destroyed (chartId c)] | _ \<Rightarrow> [])
              @ [Constructed i, Destroyed i, Constructed (i + 2)]"
proof -
  define pre where "pre = (case registry w canvasId of Some (Instance c) \<Rightarrow> [Destroyed (chartId c)] | _ \<Rightarrow> [])"
  define i where "i = length (events w @ pre)"
  define w0 where "w0 = disposeExisting canvasId w"
  define w1 where "w1 = constructChart lib canvasId cfg1 w0"
  define w0' where "w0' = disposeExisting canvasId w1"
  define w2 where "w2 = constructChart lib canvasId cfg2 w0'"
  have l1: "lib w0 canvasId cfg1" using assms(5) by (simp add: w0_def)
  have l2: "lib w0' canvasId cfg2" using assms(6) by (simp add: w0'_def w1_def w0_def)
  have e0: "events w0 = events w @ pre" by (simp add: w0_def pre_def events_dispose)
  have r1: "renderChart lib canvasId d1 ls1 col1 w = Inr w1"
    unfolding w1_def w0_def by (rule renderChart_Context2d[OF assms(1,2,3)])
  have w1eq: "w1 = w0\<lparr>charts := Some ((registry w0)(canvasId \<mapsto> Instance \<lparr>chartId = i, config = cfg1\<rparr>)),
                     events := events w0 @ [Constructed i]\<rparr>"
    unfolding w1_def using constructChart_ok[of lib w0 canvasId cfg1] l1 by (simp add: i_def e0)
  have reg1: "registry w1 canvasId = Some (Instance \<lparr>chartId = i, config = cfg1\<rparr>)"
    unfolding w1eq by simp
  have ev1: "events w1 = events w @ pre @ [Constructed i]"
    unfolding w1eq by (simp add: e0)
  have doc1: "document w1 = document w" and tk1: "currentTicker w1 = currentTicker w"
    unfolding w1eq by (simp_all add: w0_def dispose_frame)
  have g1: "getElementById (document w1) canvasId = Some a" using assms(1) doc1 by simp
  have c1: "getContext (document w1 ! a) = Context2d" using assms(2) doc1 by simp
  have b1: "buildConfig (currentTicker w1) canvasId d2 ls2 col2 = Inr cfg2" using assms(4) tk1 by simp
  have r2: "renderChart lib canvasId d2 ls2 col2 w1 = Inr w2"
    unfolding w2_def w0'_def by (rule renderChart_Context2d[OF g1 c1 b1])
  have e0': "events w0' = events w @ pre @ [Constructed i, Destroyed i]"
    unfolding w0'_def by (simp add: events_dispose reg1 ev1)
  have len: "length (events w0') = i + 2" by (simp add: e0' i_def)
  have w2eq: "w2 = w0'\<lparr>charts := Some ((registry w0')(canvasId \<mapsto> Instance \<lparr>chartId = i + 2, config = cfg2\<rparr>)),
                      events := events w0' @ [Constructed (i + 2)]\<rparr>"
    unfolding w2_def using constructChart_ok[of lib w0' canvasId cfg2] l2 by (simp add: len)
  have reg2: "registry w2 canvasId = Some (Instance \<lparr>chartId = i + 2, config = cfg2\<rparr>)"
    unfolding w2eq by simp
  have ev2: "events w2 = events w @ pre @ [Constructed i, Destroyed i, Constructed (i + 2)]"
    unfolding w2eq by (simp add: e0')
  from r1 r2 reg1 reg2 ev2 show ?thesis unfolding pre_def by blast
qed

lemma template_alphaChart:
  "getElementById templatePage ''alphaChart'' = Some 19"
  "getContext (templatePage ! 19) = Context2d"
  by code_simp+

lemma prettyName_alpha: "prettyName ''alphaChart'' = ''Alpha''"
  by code_simp

lemma buildConfig_alpha_empty:
  "buildConfig Undefined ''alphaChart'' (Arr []) (Arr []) ''#32CD32'' = Inr (emptyChart ''Alpha'' ''#32CD32'')"
  by (simp add: buildConfig_def chartTitle_def ToBoolean_def prettyName_alpha pointRadiusOf_Arr emptyChart_def)

theorem renderChart_twice_witness:
  "\<exists>w1 w2 i.
      renderChart alwaysConstructs ''alphaChart'' (Arr []) (Arr []) ''#32CD32'' initialWorld = Inr w1
    \<and> renderChart alwaysConstructs ''alphaChart'' (Arr []) (Arr []) ''#32CD32'' w1 = Inr w2
    \<and> registry w1 ''alphaChart'' = Some (Instance \<lparr>chartId = i, config = emptyChart ''Alpha'' ''#32CD32''\<rparr>)
    \<and> registry w2 ''alphaChart'' = Some (Instance \<lparr>chartId = i + 2, config = emptyChart ''Alpha'' ''#32CD32''\<rparr>)
    \<and> events w2 = [Constructed i, Destroyed i, Constructed (i + 2)]"
proof -
  have g: "getElementById (document initialWorld) ''alphaChart'' = Some 19"
    by (simp add: initialWorld_def template_alphaChart)
  have c: "getContext (document initialWorld ! 19) = Context2d"
    by (simp add: initialWorld_def template_alphaChart)
  have b: "buildConfig (currentTicker initialWorld) ''alphaChart'' (Arr []) (Arr []) ''#32CD32'' =
           Inr (emptyChart ''Alpha'' ''#32CD32'')"
    by (simp add: initialWorld_def buildConfig_alpha_empty)
  have l1: "alwaysConstructs (disposeExisting ''alphaChart'' initialWorld) ''alphaChart''
              (emptyChart ''Alpha'' ''#32CD32'')"
    by (simp add: alwaysConstructs_def)
  have l2: "alwaysConstructs
              (disposeExisting ''alphaChart''
                 (constructChart alwaysConstructs ''alphaChart'' (emptyChart ''Alpha'' ''#32CD32'')
                    (disposeExisting ''alphaChart'' initialWorld)))
              ''alphaChart'' (emptyChart ''Alpha'' ''#32CD32'')"
    by (simp add: alwaysConstructs_def)
  have e: "events initialWorld = []" "registry initialWorld ''alphaChart'' = None"
    by (simp_all add: initialWorld_def registry_def)
  from renderChart_twice[where lib = alwaysConstructs, OF g c b b l1 l2] show ?thesis by (simp add: e)
qed

theorem renderChart_failed_replacement_witness:
  "\<exists>w'. renderChart neverConstructs ''alphaChart'' (Arr []) (Arr []) ''#32CD32'' chartedWorld = Inr w'
     \<and> registry w' ''alphaChart'' = Some NullEntry
     \<and> events w' = [Constructed 0, Destroyed 0, ConstructionFailed]
     \<and> document w' = templatePage"
proof -
  have g: "getElementById (document chartedWorld) ''alphaChart'' = Some 19"
    by (simp add: chartedWorld_def initialWorld_def template_alphaChart)
  have c: "getContext (document chartedWorld ! 19) = Context2d"
    by (simp add: chartedWorld_def initialWorld_def template_alphaChart)
  have r: "registry chartedWorld ''alphaChart'' =
           Some (Instance \<lparr>chartId = 0, config = emptyChart ''Alpha'' ''#32CD32''\<rparr>)"
    by (simp add: chartedWorld_def registry_def)
  have b: "buildConfig (currentTicker chartedWorld) ''alphaChart'' (Arr []) (Arr []) ''#32CD32'' =
           Inr (emptyChart ''Alpha'' ''#32CD32'')"
    by (simp add: chartedWorld_def initialWorld_def buildConfig_alpha_empty)
  have l: "\<not> neverConstructs (disposeExisting ''alphaChart'' chartedWorld) ''alphaChart''
             (emptyChart ''Alpha'' ''#32CD32'')"
    by (simp add: neverConstructs_def)
  have e: "events chartedWorld = [Constructed 0]" "document chartedWorld = templatePage"
    by (simp_all add: chartedWorld_def initialWorld_def)
  from renderChart_failed_replacement[where lib = neverConstructs, OF g c r b l] show ?thesis by (auto simp: e)
qed

section \<open>Properties of the page store\<close>

section \<open>store lemmas\<close>

lemma getElementById_Some:
  assumes "getElementById doc i = Some a"
  shows "a < length doc \<and> elemId (doc ! a) = i \<and> i \<noteq> []"
proof -
  from assms have ne: "i \<noteq> []" by (auto simp: getElementById_def split: if_splits)
  from assms ne obtain ks where "filter (\<lambda>k. elemId (doc ! k) = i) [0..<length doc] = a # ks"
    by (auto simp: getElementById_def split: list.splits)
  then have "a \<in> set (filter (\<lambda>k. elemId (doc ! k) = i) [0..<length doc])" by simp
  then show ?thesis using ne by auto
qed

lemma getElementById_ids:
  assumes "map elemId doc' = map elemId doc"
  shows "getElementById doc' i = getElementById doc i"
proof -
  have "length (map elemId doc') = length (map elemId doc)" using assms by simp
  then have len: "length doc' = length doc" by simp
  have "\<And>k. k < length doc \<Longrightarrow> elemId (doc' ! k) = elemId (doc ! k)"
  proof -
    fix k assume k: "k < length doc"
    have "map elemId doc' ! k = map elemId doc ! k" using assms by simp
    then show "elemId (doc' ! k) = elemId (doc ! k)" using k len by simp
  qed
  then have "filter (\<lambda>k. elemId (doc' ! k) = i) [0..<length doc] =
             filter (\<lambda>k. elemId (doc ! k) = i) [0..<length doc]"
    by (intro filter_cong) auto
  then show ?thesis by (simp add: getElementById_def len)
qed

lemma getElementById_inj:
  assumes "getElementById doc i = Some a" "getElementById doc j = Some a"
  shows "i = j"
proof -
  have "elemId (doc ! a) = i" using getElementById_Some[OF assms(1)] by simp
  moreover have "elemId (doc ! a) = j" using getElementById_Some[OF assms(2)] by simp
  ultimately show ?thesis by simp
qed

lemma map_update_same:
  assumes "f y = f (xs ! a)"
  shows "map f (xs[a := y]) = map f xs"
proof (cases "a < length xs")
  case True
  have "map f (xs[a := y]) = (map f xs)[a := f y]" by (rule map_update)
  also have "\<dots> = (map f xs)[a := map f xs ! a]" using assms True by simp
  also have "\<dots> = map f xs" by (rule list_update_id)
  finally show ?thesis .
next
  case False
  then show ?thesis by (simp add: list_update_beyond)
qed

lemma sameFrame_refl [simp]: "sameFrame doc doc"
  by (simp add: sameFrame_def)

lemma sameFrame_trans: "sameFrame d3 d2 \<Longrightarrow> sameFrame d2 d1 \<Longrightarrow> sameFrame d3 d1"
  unfolding sameFrame_def by (elim conjE) (intro conjI; erule trans; assumption)

lemma sameFrame_length: "sameFrame doc' doc \<Longrightarrow> length doc' = length doc"
proof -
  assume "sameFrame doc' doc"
  then have "length (map elemId doc') = length (map elemId doc)" by (simp add: sameFrame_def)
  then show ?thesis by simp
qed

lemma sameFrame_getElementById: "sameFrame doc' doc \<Longrightarrow> getElementById doc' i = getElementById doc i"
  by (rule getElementById_ids) (simp add: sameFrame_def)

lemma sameFrame_nth:
  assumes "sameFrame doc' doc" "a < length doc"
  shows "elemId (doc' ! a) = elemId (doc ! a)"
    and "parentElement (doc' ! a) = parentElement (doc ! a)"
    and "getContext (doc' ! a) = getContext (doc ! a)"
proof -
  have len: "length doc' = length doc" by (rule sameFrame_length[OF assms(1)])
  have "map elemId doc' ! a = map elemId doc ! a" using assms(1) by (simp add: sameFrame_def)
  then show "elemId (doc' ! a) = elemId (doc ! a)" using assms(2) len by simp
  have "map parentElement doc' ! a = map parentElement doc ! a" using assms(1) by (simp add: sameFrame_def)
  then show "parentElement (doc' ! a) = parentElement (doc ! a)" using assms(2) len by simp
  have "map getContext doc' ! a = map getContext doc ! a" using assms(1) by (simp add: sameFrame_def)
  then show "getContext (doc' ! a) = getContext (doc ! a)" using assms(2) len by simp
qed

lemma sameFrame_parentOf:
  assumes "sameFrame doc' doc" "a < length doc"
  shows "parentOf doc' a = parentOf doc a"
  using sameFrame_nth(2)[OF assms] sameFrame_length[OF assms(1)]
  by (simp add: parentOf_def split: option.splits)

lemma sameFrame_containerOf:
  assumes "sameFrame doc' doc"
  shows "containerOf doc' i = containerOf doc i"
proof (cases "getElementById doc i")
  case None
  then show ?thesis using sameFrame_getElementById[OF assms, of i] by (simp add: containerOf_def)
next
  case (Some a)
  then have "a < length doc" using getElementById_Some by blast
  then show ?thesis using Some sameFrame_getElementById[OF assms, of i] sameFrame_parentOf[OF assms]
    by (simp add: containerOf_def)
qed

lemma sameFrame_content_update: "sameFrame (doc[a := (doc ! a)\<lparr>content := c\<rparr>]) doc"
proof -
  have "map elemId (doc[a := (doc ! a)\<lparr>content := c\<rparr>]) = map elemId doc"
    by (rule map_update_same) simp
  moreover have "map parentElement (doc[a := (doc ! a)\<lparr>content := c\<rparr>]) = map parentElement doc"
    by (rule map_update_same) simp
  moreover have "map getContext (doc[a := (doc ! a)\<lparr>content := c\<rparr>]) = map getContext doc"
    by (rule map_update_same) simp
  ultimately show ?thesis by (simp add: sameFrame_def)
qed

lemma sameFrame_classList_update: "sameFrame (doc[a := (doc ! a)\<lparr>classList := c\<rparr>]) doc"
proof -
  have "map elemId (doc[a := (doc ! a)\<lparr>classList := c\<rparr>]) = map elemId doc"
    by (rule map_update_same) simp
  moreover have "map parentElement (doc[a := (doc ! a)\<lparr>classList := c\<rparr>]) = map parentElement doc"
    by (rule map_update_same) simp
  moreover have "map getContext (doc[a := (doc ! a)\<lparr>classList := c\<rparr>]) = map getContext doc"
    by (rule map_update_same) simp
  ultimately show ?thesis by (simp add: sameFrame_def)
qed

lemma sameFrame_setTextContent: "sameFrame (setTextContent a s doc) doc"
  by (simp add: setTextContent_def sameFrame_content_update)

lemma sameFrame_setInnerHTML: "sameFrame (setInnerHTML a s doc) doc"
  by (simp add: setInnerHTML_def sameFrame_content_update)

lemma sameFrame_appendChild: "sameFrame (appendChild a n doc) doc"
  by (simp add: appendChild_def sameFrame_content_update)

lemma update_Str:
  "updateChartCardTextOnly vid cid (Str vs) (Str cs) doc =
     (let doc1 = (case getElementById doc vid of None \<Rightarrow> doc | Some a \<Rightarrow> setTextContent a (trim vs) doc)
      in case getElementById doc cid of
           None \<Rightarrow> doc1
         | Some a \<Rightarrow>
             (case parentOf doc1 a of
                None \<Rightarrow> setTextContent a (trim cs) doc1
              | Some p \<Rightarrow>
                  (setTextContent a (trim cs) doc1)[p := (setTextContent a (trim cs) doc1 ! p)\<lparr>classList :=
                     classListAdd (if startsWith cs ''-'' then ''negative'' else ''positive'')
                       (classListRemove [''positive'', ''negative'']
                          (classList (setTextContent a (trim cs) doc1 ! p)))\<rparr>]))"
  by (simp add: updateChartCardTextOnly_def Let_def split: option.splits)

lemma sameFrame_update: "sameFrame (updateChartCardTextOnly vid cid (Str vs) (Str cs) doc) doc"
proof -
  define doc1 where "doc1 = (case getElementById doc vid of None \<Rightarrow> doc | Some a \<Rightarrow> setTextContent a (trim vs) doc)"
  have f1: "sameFrame doc1 doc"
    by (simp add: doc1_def sameFrame_setTextContent split: option.splits)
  have f2: "\<And>a. sameFrame (setTextContent a (trim cs) doc1) doc"
    using sameFrame_setTextContent f1 sameFrame_trans by blast
  have f3: "\<And>a p c. sameFrame ((setTextContent a (trim cs) doc1)[p := (setTextContent a (trim cs) doc1 ! p)\<lparr>classList := c\<rparr>]) doc"
    using sameFrame_classList_update f2 sameFrame_trans by blast
  show ?thesis
    unfolding update_Str doc1_def[symmetric] Let_def
    by (simp add: f1 f2 f3 split: option.splits)
qed

text \<open>what one card update leaves in a slot\<close>

lemma content_setTextContent:
  "b < length doc \<Longrightarrow> content (setTextContent a s doc ! b) = (if a = b then textNodes s else content (doc ! b))"
  by (simp add: setTextContent_def nth_list_update)

lemma length_setTextContent [simp]: "length (setTextContent a s doc) = length doc"
  by (simp add: setTextContent_def)

lemma content_classList_update:
  "content (doc[p := (doc ! p)\<lparr>classList := c\<rparr>] ! b) = content (doc ! b)"
  by (cases "p < length doc"; cases "p = b") (simp_all add: list_update_beyond)

lemma update_content:
  assumes "b < length doc"
  shows "content (updateChartCardTextOnly vid cid (Str vs) (Str cs) doc ! b) =
         (if getElementById doc cid = Some b then textNodes (trim cs)
          else if getElementById doc vid = Some b then textNodes (trim vs)
          else content (doc ! b))"
proof -
  define doc1 where "doc1 = (case getElementById doc vid of None \<Rightarrow> doc | Some a \<Rightarrow> setTextContent a (trim vs) doc)"
  have l1: "length doc1 = length doc" by (simp add: doc1_def split: option.splits)
  have c1: "content (doc1 ! b) = (if getElementById doc vid = Some b then textNodes (trim vs) else content (doc ! b))"
    using assms by (auto simp: doc1_def content_setTextContent split: option.splits)
  have b1: "b < length doc1" using assms l1 by simp
  show ?thesis
  proof (cases "getElementById doc cid")
    case None
    then show ?thesis unfolding update_Str doc1_def[symmetric] Let_def by (simp add: c1)
  next
    case (Some a)
    have c2: "content (setTextContent a (trim cs) doc1 ! b) =
              (if a = b then textNodes (trim cs) else content (doc1 ! b))"
      by (rule content_setTextContent[OF b1])
    show ?thesis
      unfolding update_Str doc1_def[symmetric] Let_def
      using Some by (auto simp: content_classList_update content_setTextContent[OF b1] c1 split: option.splits)
  qed
qed

lemma update_content_other:
  assumes "getElementById doc i = Some b" "i \<noteq> vid" "i \<noteq> cid"
  shows "content (updateChartCardTextOnly vid cid (Str vs) (Str cs) doc ! b) = content (doc ! b)"
proof -
  from assms(1) have b: "b < length doc" using getElementById_Some by blast
  have "getElementById doc cid \<noteq> Some b" "getElementById doc vid \<noteq> Some b"
    using assms getElementById_inj by blast+
  then show ?thesis by (simp add: update_content[OF b])
qed

lemma update_content_value:
  assumes "getElementById doc vid = Some b" "vid \<noteq> cid"
  shows "content (updateChartCardTextOnly vid cid (Str vs) (Str cs) doc ! b) = textNodes (trim vs)"
proof -
  from assms(1) have b: "b < length doc" using getElementById_Some by blast
  have "getElementById doc cid \<noteq> Some b"
    using assms getElementById_inj by blast
  then show ?thesis using assms(1) by (simp add: update_content[OF b])
qed

lemma update_content_change:
  assumes "getElementById doc cid = Some b"
  shows "content (updateChartCardTextOnly vid cid (Str vs) (Str cs) doc ! b) = textNodes (trim cs)"
proof -
  from assms(1) have b: "b < length doc" using getElementById_Some by blast
  show ?thesis using assms(1) by (simp add: update_content[OF b])
qed

text \<open>what one card update does to the class list of an element\<close>

lemma classList_setTextContent:
  "classList (setTextContent a s doc ! q) = classList (doc ! q)"
  by (cases "a < length doc"; cases "a = q") (simp_all add: setTextContent_def list_update_beyond)

lemma update_classList:
  assumes "q < length doc"
  shows "classList (updateChartCardTextOnly vid cid (Str vs) (Str cs) doc ! q) =
         (if containerOf doc cid = Some q
          then classListAdd (if startsWith cs ''-'' then ''negative'' else ''positive'')
                 (classListRemove [''positive'', ''negative''] (classList (doc ! q)))
          else classList (doc ! q))"
proof -
  define doc1 where "doc1 = (case getElementById doc vid of None \<Rightarrow> doc | Some a \<Rightarrow> setTextContent a (trim vs) doc)"
  have f1: "sameFrame doc1 doc"
    by (simp add: doc1_def sameFrame_setTextContent split: option.splits)
  have l1: "length doc1 = length doc" by (rule sameFrame_length[OF f1])
  have k1: "classList (doc1 ! q) = classList (doc ! q)"
    by (simp add: doc1_def classList_setTextContent split: option.splits)
  show ?thesis
  proof (cases "getElementById doc cid")
    case None
    then show ?thesis unfolding update_Str doc1_def[symmetric] Let_def
      by (simp add: k1 containerOf_def)
  next
    case (Some a)
    then have a: "a < length doc" using getElementById_Some by blast
    have p1: "parentOf doc1 a = parentOf doc a" by (rule sameFrame_parentOf[OF f1 a])
    have co: "containerOf doc cid = parentOf doc a" using Some by (simp add: containerOf_def)
    show ?thesis
    proof (cases "parentOf doc a")
      case None
      then show ?thesis unfolding update_Str doc1_def[symmetric] Let_def
        using Some p1 co by (simp add: classList_setTextContent k1)
    next
      case (Some p)
      then have p: "p < length doc" by (auto simp: parentOf_def split: option.splits if_splits)
      show ?thesis unfolding update_Str doc1_def[symmetric] Let_def
        using Some \<open>getElementById doc cid = Some a\<close> p1 co p assms l1
        by (simp add: classList_setTextContent k1 nth_list_update)
    qed
  qed
qed

section \<open>Properties of the performance controller\<close>

section \<open>controller lemmas\<close>

lemma ToBoolean_getProp: "ToBoolean m \<Longrightarrow> getProp m n = Inr (optProp m n)"
  by (cases m) (simp_all add: ToBoolean_def optProp_def getProp_def)



lemma toFixed_ok: "0 \<le> d \<Longrightarrow> d \<le> 100 \<Longrightarrow> \<exists>s. toFixed n d = Inr s"
  by (cases n) (simp_all add: toFixed_def)

lemma formatSignedValue_Num_ok:
  assumes "0 \<le> d" "d \<le> 100"
  shows "\<exists>s. formatSignedValue (Num n) d p = Inr s"
proof (cases "n = NaN")
  case True
  then show ?thesis by (simp add: formatSignedValue_NaN)
next
  case False
  obtain s where "toFixed n d = Inr s" using toFixed_ok[OF assms] by blast
  then show ?thesis using False
    by (simp add: formatSignedValue_def isNaN_def ToNumber_def)
qed

lemma formattable_ok:
  assumes "formattable v" "0 \<le> d" "d \<le> 100"
  shows "\<exists>s. formatSignedValue v d p = Inr s"
proof (cases v)
  case Undefined
  then show ?thesis by (simp add: formatSignedValue_def isNaN_def ToNumber_def)
next
  case (Num n)
  then show ?thesis using formatSignedValue_Num_ok[OF assms(2,3)] by simp
next
  case (Str s)
  then show ?thesis using formatSignedValue_Num_ok[OF assms(2,3)] by (simp add: formatSignedValue_Str)
qed (use assms(1) in \<open>simp_all add: formattable_def\<close>)

lemma formatField_ok:
  assumes "ToBoolean m" "formattable (optProp m n)" "0 \<le> d" "d \<le> 100"
  shows "\<exists>s. formatField m n d p = Inr s"
  using formattable_ok[OF assms(2,3,4)] by (simp add: formatField_def ToBoolean_getProp[OF assms(1)])


lemma pointRadiusOf_ok:
  assumes "case d of Obj ps \<Rightarrow> False | _ \<Rightarrow> True"
  shows "\<exists>r. pointRadiusOf d = Inr r"
  using assms
  by (cases d) (auto simp: pointRadiusOf_def getProp_def lessThan10_def ToNumber_def ToBoolean_def)

lemma chartTitle_Str: "\<exists>t. chartTitle (Str s) canvasId = Inr t"
  by (simp add: chartTitle_def ToBoolean_def)

lemma buildConfig_ok:
  assumes "case d of Obj ps \<Rightarrow> False | _ \<Rightarrow> True"
  shows "\<exists>cfg. buildConfig (Str s) canvasId d ls col = Inr cfg"
proof -
  obtain t where t: "chartTitle (Str s) canvasId = Inr t" using chartTitle_Str by blast
  obtain r where r: "pointRadiusOf d = Inr r" using pointRadiusOf_ok[OF assms] by blast
  show ?thesis by (simp add: buildConfig_def t r)
qed










lemma cards_sameFrame:
  "sameFrame (updateChartCardTextOnly v4 c4 (Str vs4) (Str cs4)
       (updateChartCardTextOnly v3 c3 (Str vs3) (Str cs3)
         (updateChartCardTextOnly v2 c2 (Str vs2) (Str cs2)
           (updateChartCardTextOnly v1 c1 (Str vs1) (Str cs1) doc)))) doc"
  by (intro sameFrame_trans[OF sameFrame_update] sameFrame_update)



lemma cards_slot_absent:
  assumes d: "document w' = updateChartCardTextOnly v4 c4 (Str vs4) (Str cs4)
       (updateChartCardTextOnly v3 c3 (Str vs3) (Str cs3)
         (updateChartCardTextOnly v2 c2 (Str vs2) (Str cs2)
           (updateChartCardTextOnly v1 c1 (Str vs1) (Str cs1) doc)))"
    and i: "getElementById doc i = None"
  shows "slotContent w' i = None"
proof -
  have g: "getElementById (document w') i = None"
    unfolding d using sameFrame_getElementById[OF cards_sameFrame] i by simp
  show ?thesis unfolding slotContent_def g by simp
qed

lemma cards_classList:
  assumes q: "q < length doc"
  shows "classList (updateChartCardTextOnly v4 c4 (Str vs4) (Str cs4)
       (updateChartCardTextOnly v3 c3 (Str vs3) (Str cs3)
         (updateChartCardTextOnly v2 c2 (Str vs2) (Str cs2)
           (updateChartCardTextOnly v1 c1 (Str vs1) (Str cs1) doc))) ! q) =
     (let k1 = (if containerOf doc c1 = Some q
                then classListAdd (if startsWith cs1 ''-'' then ''negative'' else ''positive'')
                       (classListRemove [''positive'', ''negative''] (classList (doc ! q)))
                else classList (doc ! q));
          k2 = (if containerOf doc c2 = Some q
                then classListAdd (if startsWith cs2 ''-'' then ''negative'' else ''positive'')
                       (classListRemove [''positive'', ''negative''] k1)
                else k1);
          k3 = (if containerOf doc c3 = Some q
                then classListAdd (if startsWith cs3 ''-'' then ''negative'' else ''positive'')
                       (classListRemove [''positive'', ''negative''] k2)
                else k2)
      in if containerOf doc c4 = Some q
         then classListAdd (if startsWith cs4 ''-'' then ''negative'' else ''positive'')
                (classListRemove [''positive'', ''negative''] k3)
         else k3)"
proof -
  define d1 where "d1 = updateChartCardTextOnly v1 c1 (Str vs1) (Str cs1) doc"
  define d2 where "d2 = updateChartCardTextOnly v2 c2 (Str vs2) (Str cs2) d1"
  define d3 where "d3 = updateChartCardTextOnly v3 c3 (Str vs3) (Str cs3) d2"
  have f1: "sameFrame d1 doc" unfolding d1_def by (rule sameFrame_update)
  have f2: "sameFrame d2 doc" unfolding d2_def by (rule sameFrame_trans[OF sameFrame_update f1])
  have f3: "sameFrame d3 doc" unfolding d3_def by (rule sameFrame_trans[OF sameFrame_update f2])
  have q1: "q < length d1" and q2: "q < length d2" and q3: "q < length d3"
    using q sameFrame_length[OF f1] sameFrame_length[OF f2] sameFrame_length[OF f3] by simp_all
  have g: "\<And>i. containerOf d1 i = containerOf doc i"
          "\<And>i. containerOf d2 i = containerOf doc i"
          "\<And>i. containerOf d3 i = containerOf doc i"
    by (rule sameFrame_containerOf[OF f1], rule sameFrame_containerOf[OF f2],
        rule sameFrame_containerOf[OF f3])
  have e1: "classList (d1 ! q) =
        (if containerOf doc c1 = Some q
         then classListAdd (if startsWith cs1 ''-'' then ''negative'' else ''positive'')
                (classListRemove [''positive'', ''negative''] (classList (doc ! q)))
         else classList (doc ! q))"
    unfolding d1_def by (rule update_classList[OF q])
  have e2: "classList (d2 ! q) =
        (if containerOf doc c2 = Some q
         then classListAdd (if startsWith cs2 ''-'' then ''negative'' else ''positive'')
                (classListRemove [''positive'', ''negative''] (classList (d1 ! q)))
         else classList (d1 ! q))"
    unfolding d2_def using update_classList[OF q1, of v2 c2 vs2 cs2] by (simp only: g)
  have e3: "classList (d3 ! q) =
        (if containerOf doc c3 = Some q
         then classListAdd (if startsWith cs3 ''-'' then ''negative'' else ''positive'')
                (classListRemove [''positive'', ''negative''] (classList (d2 ! q)))
         else classList (d2 ! q))"
    unfolding d3_def using update_classList[OF q2, of v3 c3 vs3 cs3] by (simp only: g)
  have e4: "classList (updateChartCardTextOnly v4 c4 (Str vs4) (Str cs4) d3 ! q) =
        (if containerOf doc c4 = Some q
         then classListAdd (if startsWith cs4 ''-'' then ''negative'' else ''positive'')
                (classListRemove [''positive'', ''negative''] (classList (d3 ! q)))
         else classList (d3 ! q))"
    using update_classList[OF q3, of v4 c4 vs4 cs4] by (simp only: g)
  show ?thesis
    unfolding d1_def[symmetric] d2_def[symmetric] d3_def[symmetric] Let_def
    by (simp only: e4 e3 e2 e1)
qed

lemma containerOf_less: "containerOf doc i = Some q \<Longrightarrow> q < length doc"
  by (auto simp: containerOf_def parentOf_def split: option.splits if_splits)

lemma sign_class:
  "set (classListAdd ''positive'' (classListRemove [''positive'', ''negative''] cl)) \<inter> {''positive'', ''negative''} = {''positive''}"
  "set (classListAdd ''negative'' (classListRemove [''positive'', ''negative''] cl)) \<inter> {''positive'', ''negative''} = {''negative''}"
  by (auto simp: classListAdd_def classListRemove_def)










lemma template_containers:
  "containerOf templatePage ''rp-change'' = Some 4"
  "containerOf templatePage ''zscore-change'' = Some 10"
  "containerOf templatePage ''alpha-change'' = Some 16"
  "containerOf templatePage ''cumulative-alpha-change'' = Some 22"
  "classList (templatePage ! 4) = [''chart-change'']"
  by code_simp+


lemma renderChart_registry_other:
  assumes "renderChart lib c d ls col w = Inr w'" "c' \<noteq> c"
  shows "registry w' c' = registry w c'"
  using assms
  by (auto simp: renderChart_def Let_def bindE_def constructChart_def registry_dispose
      split: option.splits context2d.splits sum.splits if_splits entry.splits)

lemma renderMetric_registry_other:
  assumes "renderMetric lib c m col w = Inr w'" "c' \<noteq> c"
  shows "registry w' c' = registry w c'"
proof -
  from assms(1) obtain vs ds where "renderChart lib c vs ds col w = Inr w'"
    by (auto simp: renderMetric_def bindE_def split: sum.splits)
  then show ?thesis by (rule renderChart_registry_other[OF _ assms(2)])
qed

lemma renderMetric_draws:
  assumes g: "getElementById (document w) c = Some a"
    and cx: "getContext (document w ! a) = Context2d"
    and t: "currentTicker w = Str s"
    and m: "ToBoolean m"
    and v: "case optProp m ''values'' of Obj ps \<Rightarrow> False | _ \<Rightarrow> True"
    and lib: "\<And>w c cfg. lib w c cfg"
    and r: "renderMetric lib c m col w = Inr w'"
  shows "\<exists>n cfg. buildConfig (Str s) c (optProp m ''values'') (optProp m ''dates'') col = Inr cfg
           \<and> registry w' c = Some (Instance \<lparr>chartId = n, config = cfg\<rparr>)"
proof -
  obtain cfg where cfg: "buildConfig (Str s) c (optProp m ''values'') (optProp m ''dates'') col = Inr cfg"
    using buildConfig_ok[OF v] by blast
  have b: "buildConfig (currentTicker w) c (optProp m ''values'') (optProp m ''dates'') col = Inr cfg"
    by (simp add: t cfg)
  have "renderMetric lib c m col w =
        Inr (constructChart lib c cfg (disposeExisting c w))"
    by (simp add: renderMetric_def ToBoolean_getProp[OF m] renderChart_Context2d[OF g cx b])
  then have w': "w' = constructChart lib c cfg (disposeExisting c w)" using r by simp
  have "registry w' c = Some (Instance \<lparr>chartId = length (events (disposeExisting c w)), config = cfg\<rparr>)"
    unfolding w' by (simp add: constructChart_ok[of lib, OF lib])
  then show ?thesis using cfg by blast
qed

lemma four_renders_registry:
  assumes r1: "renderMetric lib c1 m1 col1 w1 = Inr w2"
    and r2: "renderMetric lib c2 m2 col2 w2 = Inr w3"
    and r3: "renderMetric lib c3 m3 col3 w3 = Inr w4"
    and r4: "renderMetric lib c4 m4 col4 w4 = Inr w5"
    and dist: "distinct [c1, c2, c3, c4]"
    and docs: "document w1 = doc" "document w2 = doc" "document w3 = doc" "document w4 = doc"
    and ts: "currentTicker w1 = Str s" "currentTicker w2 = Str s" "currentTicker w3 = Str s"
            "currentTicker w4 = Str s"
    and row: "(c, m, col) \<in> set [(c1, m1, col1), (c2, m2, col2), (c3, m3, col3), (c4, m4, col4)]"
    and g: "getElementById doc c = Some a"
    and cx: "getContext (doc ! a) = Context2d"
    and m: "ToBoolean m"
    and v: "case optProp m ''values'' of Obj ps \<Rightarrow> False | _ \<Rightarrow> True"
    and lib: "\<And>w c cfg. lib w c cfg"
  shows "\<exists>n cfg. buildConfig (Str s) c (optProp m ''values'') (optProp m ''dates'') col = Inr cfg
           \<and> registry w5 c = Some (Instance \<lparr>chartId = n, config = cfg\<rparr>)"
proof -
  from row consider "(c, m, col) = (c1, m1, col1)" | "(c, m, col) = (c2, m2, col2)"
    | "(c, m, col) = (c3, m3, col3)" | "(c, m, col) = (c4, m4, col4)" by auto
  then show ?thesis
  proof cases
    case 1
    then have e: "c = c1" "m = m1" "col = col1" by simp_all
    have k: "registry w5 c = registry w2 c"
      using renderMetric_registry_other[OF r4, of c] renderMetric_registry_other[OF r3, of c]
        renderMetric_registry_other[OF r2, of c] dist e by simp
    from renderMetric_draws[of w1 c a s m lib col w2] g cx ts(1) m v lib r1 docs(1) e
    show ?thesis unfolding k by simp
  next
    case 2
    then have e: "c = c2" "m = m2" "col = col2" by simp_all
    have k: "registry w5 c = registry w3 c"
      using renderMetric_registry_other[OF r4, of c] renderMetric_registry_other[OF r3, of c]
        dist e by simp
    from renderMetric_draws[of w2 c a s m lib col w3] g cx ts(2) m v lib r2 docs(2) e
    show ?thesis unfolding k by simp
  next
    case 3
    then have e: "c = c3" "m = m3" "col = col3" by simp_all
    have k: "registry w5 c = registry w4 c"
      using renderMetric_registry_other[OF r4, of c] dist e by simp
    from renderMetric_draws[of w3 c a s m lib col w4] g cx ts(3) m v lib r3 docs(3) e
    show ?thesis unfolding k by simp
  next
    case 4
    then have e: "c = c4" "m = m4" "col = col4" by simp_all
    from renderMetric_draws[of w4 c a s m lib col w5] g cx ts(4) m v lib r4 docs(4) e
    show ?thesis by simp
  qed
qed















end
